theory Spec2Isabelle
  imports Main
begin

section \<open>Values\<close>

text \<open>
  What a \<^verbatim>\<open>throw\<close> or a rejected promise carries. \<open>Error\<close> is the plain
  \<^verbatim>\<open>new Error(message)\<close> of the source and of the backends, \<open>SyntaxError\<close> is what
  \<^verbatim>\<open>JSON.parse\<close> raises, \<open>TypeError\<close> is a call through a missing object.
\<close>

datatype error = Error string | SyntaxError string | TypeError string

text \<open>
  \<^verbatim>\<open>RoomInvitationPayload\<close>, with the six fields the facade reads. The source
  guards \<^verbatim>\<open>topic\<close>, \<^verbatim>\<open>memberCount\<close> and \<^verbatim>\<open>memberIdList\<close> with \<^verbatim>\<open>||\<close>, so these
  fields may be missing: \<open>None\<close> stands for \<^verbatim>\<open>undefined\<close> and \<^verbatim>\<open>null\<close>. Numbers
  are the integers a count and a timestamp are (no \<^verbatim>\<open>NaN\<close>, no fractions).
\<close>

record payload =
  p_id           :: string
  p_topic        :: "string option"
  p_inviterId    :: string
  p_memberCount  :: "int option"
  p_memberIdList :: "string list option"
  p_timestamp    :: "int option"

text \<open>
  A number of the host language as \<^verbatim>\<open>age\<close> computes with it: an integer or \<^verbatim>\<open>NaN\<close>.
  A \<^verbatim>\<open>Date\<close> is its time value, milliseconds since the epoch, or it is an
  Invalid Date (what \<^verbatim>\<open>new Date\<close> makes of \<^verbatim>\<open>undefined\<close>, of \<^verbatim>\<open>NaN\<close> and of a
  time out of range), whose \<^verbatim>\<open>getTime()\<close> is \<^verbatim>\<open>NaN\<close>.
\<close>

datatype number = Number int | NaN

datatype js_date = Date int | Invalid_Date

fun getTime :: "js_date \<Rightarrow> number" where
  "getTime (Date ms) = Number ms"
| "getTime Invalid_Date = NaN"

text \<open>\<^verbatim>\<open>a - b\<close>: \<^verbatim>\<open>NaN\<close> as soon as one side is.\<close>

fun number_minus :: "number \<Rightarrow> number \<Rightarrow> number" where
  "number_minus (Number a) (Number b) = Number (a - b)"
| "number_minus a b = NaN"

text \<open>
  \<^verbatim>\<open>Math.floor(a / k)\<close> for a positive integer \<open>k\<close>: on integers \<open>div\<close> rounds
  towards minus infinity, as \<^verbatim>\<open>Math.floor\<close> of the quotient does (the two agree as
  long as the milliseconds are integers a double holds exactly, which clock readings
  are); \<^verbatim>\<open>NaN\<close> stays \<^verbatim>\<open>NaN\<close>.
\<close>

fun Math_floor_divide :: "number \<Rightarrow> int \<Rightarrow> number" where
  "Math_floor_divide (Number a) k = Number (a div k)"
| "Math_floor_divide NaN k = NaN"

text \<open>\<^verbatim>\<open>a >= b\<close>: false as soon as one side is \<^verbatim>\<open>NaN\<close>.\<close>

fun number_ge :: "number \<Rightarrow> number \<Rightarrow> bool" where
  "number_ge (Number a) (Number b) = (b \<le> a)"
| "number_ge a b = False"

text \<open>A reference to one \<^verbatim>\<open>Wechaty\<close> object (the bound context).\<close>

type_synonym wechaty = nat

text \<open>A contact handle: the context it was loaded from, and its id.\<close>

datatype contact = Contact wechaty string

fun contact_id :: "contact \<Rightarrow> string" where
  "contact_id (Contact r c) = c"

text \<open>
  The base class, and the classes \<^verbatim>\<open>wechatifyRoomInvitation\<close> returns: each one
  closes over the \<^verbatim>\<open>wechaty\<close> it was made for.
\<close>

datatype roomInvitationClass = RoomInvitation | WechatifiedRoomInvitation wechaty

text \<open>
  An instance: the class it was constructed on (what \<^verbatim>\<open>instanceToClass\<close> finds)
  and the one property the constructor declares, \<^verbatim>\<open>public readonly id\<close>.
\<close>

record roomInvitation =
  h_class :: roomInvitationClass
  h_id    :: string

section \<open>The world outside the facade\<close>

datatype level = Verbose | Warn

text \<open>
  Everything observable that an operation does, in the order it happens: lines on the
  logging channel, the calls made on the puppet, and the calls made on contacts.
  \<open>ContactReady r c out\<close> is a \<^verbatim>\<open>ready()\<close> wait on contact \<open>c\<close> that has settled,
  with \<open>out = None\<close> when it resolved.
\<close>

datatype event =
    Log level string string "string list"
  | PayloadGet wechaty string
  | PayloadSet wechaty string payload
  | Accept wechaty string
  | ContactLoad wechaty string
  | ContactReady wechaty string "error option"

text \<open>
  Modelled from the spec: the puppet is an external backend, of which the facade uses
  three calls: \<^verbatim>\<open>roomInvitationPayload(id)\<close> (fetch),
  \<^verbatim>\<open>roomInvitationPayload(id, payload)\<close> (write-through store) and
  \<^verbatim>\<open>roomInvitationAccept(id)\<close> (commits acceptance). Any of them may reject.
  \<open>payloadOf\<close> is what a fetch answers for each id, \<open>storeFailure\<close> and
  \<open>acceptFailure\<close> say which stores and acceptances the backend rejects.
\<close>

record puppet =
  payloadOf     :: "string \<Rightarrow> error + payload"
  storeFailure  :: "string \<Rightarrow> payload \<Rightarrow> error option"
  acceptFailure :: "string \<Rightarrow> error option"

text \<open>
  Modelled from the spec: the bot context holds the puppet handle (which may be
  missing) and the contact factory; \<^verbatim>\<open>ready()\<close> on a contact handle resolves once
  the contact's own payload is populated, and \<open>contactReady\<close> says for which
  contacts it rejects instead.
\<close>

record wechaty_object =
  puppet       :: "puppet option"
  contactReady :: "string \<Rightarrow> error option"

text \<open>
  The state an operation runs in: the \<^verbatim>\<open>Wechaty\<close> objects by reference, the host
  platform (\<^verbatim>\<open>JSON.parse\<close>, \<^verbatim>\<open>JSON.stringify\<close>, \<^verbatim>\<open>Date.now()\<close> in milliseconds),
  the helper \<^verbatim>\<open>timestampToDate\<close> of
  \<^verbatim>\<open>helper-functions/pure/timestamp-to-date\<close> (which may give an Invalid Date),
  and the trace so far. \<open>JSON_parse\<close> covers the
  texts that decode to a payload object or fail to decode: the source casts whatever
  is decoded to the payload type.
\<close>

record world =
  heap            :: "wechaty \<Rightarrow> wechaty_object"
  JSON_parse      :: "string \<Rightarrow> error + payload"
  JSON_stringify  :: "payload \<Rightarrow> string"
  timestampToDate :: "int option \<Rightarrow> js_date"
  Date_now        :: int
  trace           :: "event list"

section \<open>Promises, \<^verbatim>\<open>await\<close> and \<^verbatim>\<open>try\<close>/\<^verbatim>\<open>catch\<close>\<close>

text \<open>
  An operation takes the world and gives back its outcome (\<open>Inl\<close>: thrown or
  rejected, \<open>Inr\<close>: returned or resolved) with the world it leaves.
\<close>

type_synonym 'a promise = "world \<Rightarrow> (error + 'a) \<times> world"

definition resolve :: "'a \<Rightarrow> 'a promise" where
  "resolve x w = (Inr x, w)"

definition reject :: "error \<Rightarrow> 'a promise" where
  "reject e w = (Inl e, w)"

definition await :: "'a promise \<Rightarrow> ('a \<Rightarrow> 'b promise) \<Rightarrow> 'b promise" where
  "await m f w = (case m w of (Inl e, w') \<Rightarrow> (Inl e, w') | (Inr x, w') \<Rightarrow> f x w')"

definition try_catch :: "'a promise \<Rightarrow> (error \<Rightarrow> 'a promise) \<Rightarrow> 'a promise" where
  "try_catch m h w = (case m w of (Inl e, w') \<Rightarrow> h e w' | (Inr x, w') \<Rightarrow> (Inr x, w'))"

text \<open>
  \<^verbatim>\<open>Promise.all(list.map(f))\<close>: \<^verbatim>\<open>map\<close> starts every operation, in list order,
  before \<^verbatim>\<open>Promise.all\<close> waits, so all of them run; the whole rejects when one of
  them does. Which operation settles first is the environment's choice, and the model
  fixes one schedule: the operations settle in the order they were started, and all
  have settled when the caller goes on. So the rejection reported is the first in
  list order; under another schedule it is the first in time, and operations may
  still be pending when the caller sees it.
\<close>

fun Promise_all :: "'a promise list \<Rightarrow> 'a list promise" where
  "Promise_all [] w = (Inr [], w)"
| "Promise_all (m # ms) w =
     (case m w of (r, w1) \<Rightarrow>
        (case Promise_all ms w1 of (rs, w2) \<Rightarrow>
           (case r of
              Inl e \<Rightarrow> (Inl e, w2)
            | Inr x \<Rightarrow> (case rs of Inl e \<Rightarrow> (Inl e, w2) | Inr xs \<Rightarrow> (Inr (x # xs), w2)))))"

text \<open>\<^verbatim>\<open>list.map(f)\<close> for an \<open>f\<close> that runs at once and may throw.\<close>

fun map_sync :: "('a \<Rightarrow> 'b promise) \<Rightarrow> 'a list \<Rightarrow> 'b list promise" where
  "map_sync f [] w = (Inr [], w)"
| "map_sync f (x # xs) w =
     (case f x w of
        (Inl e, w1) \<Rightarrow> (Inl e, w1)
      | (Inr y, w1) \<Rightarrow>
          (case map_sync f xs w1 of
             (Inl e, w2) \<Rightarrow> (Inl e, w2)
           | (Inr ys, w2) \<Rightarrow> (Inr (y # ys), w2)))"

text \<open>The \<^verbatim>\<open>||\<close> of the host language on a value that may be missing.\<close>

fun truthy :: "('a \<Rightarrow> bool) \<Rightarrow> 'a option \<Rightarrow> bool" where
  "truthy t None = False"
| "truthy t (Some x) = t x"

definition or_opt :: "('a \<Rightarrow> bool) \<Rightarrow> 'a option \<Rightarrow> 'a option \<Rightarrow> 'a option" where
  "or_opt t a b = (if truthy t a then a else b)"

fun or_default :: "('a \<Rightarrow> bool) \<Rightarrow> 'a option \<Rightarrow> 'a \<Rightarrow> 'a" where
  "or_default t None d = d"
| "or_default t (Some x) d = (if t x then x else d)"

definition truthy_string :: "string \<Rightarrow> bool" where
  "truthy_string s = (s \<noteq> [])"

definition truthy_number :: "int \<Rightarrow> bool" where
  "truthy_number n = (n \<noteq> 0)"

definition truthy_array :: "'a list \<Rightarrow> bool" where
  "truthy_array xs = True"

section \<open>Logging, puppet and contacts\<close>

definition log :: "level \<Rightarrow> string \<Rightarrow> string \<Rightarrow> string list \<Rightarrow> unit promise" where
  "log l m fmt args w = (Inr (), w\<lparr>trace := trace w @ [Log l m fmt args]\<rparr>)"

text \<open>\<^verbatim>\<open>(e && e.message) || e\<close>: the message, or the error itself when it has none.\<close>

fun message :: "error \<Rightarrow> string" where
  "message (Error m) = m"
| "message (SyntaxError m) = m"
| "message (TypeError m) = m"

fun error_name :: "error \<Rightarrow> string" where
  "error_name (Error m) = ''Error''"
| "error_name (SyntaxError m) = ''SyntaxError''"
| "error_name (TypeError m) = ''TypeError''"

definition message_or_error :: "error \<Rightarrow> string" where
  "message_or_error e = (if truthy_string (message e) then message e else error_name e)"

definition puppet_roomInvitationPayload ::
  "wechaty \<Rightarrow> puppet \<Rightarrow> string \<Rightarrow> payload promise" where
  "puppet_roomInvitationPayload r p i w =
     (payloadOf p i, w\<lparr>trace := trace w @ [PayloadGet r i]\<rparr>)"

definition puppet_roomInvitationPayload_set ::
  "wechaty \<Rightarrow> puppet \<Rightarrow> string \<Rightarrow> payload \<Rightarrow> unit promise" where
  "puppet_roomInvitationPayload_set r p i pl w =
     (let w1 = w\<lparr>trace := trace w @ [PayloadSet r i pl]\<rparr> in
      case storeFailure p i pl of
        Some e \<Rightarrow> (Inl e, w1)
      | None \<Rightarrow>
          (Inr (),
           w1\<lparr>heap := (heap w1)
                 (r := (heap w1 r)\<lparr>puppet :=
                         Some (p\<lparr>payloadOf := (payloadOf p)(i := Inr pl)\<rparr>)\<rparr>)\<rparr>))"

definition puppet_roomInvitationAccept ::
  "wechaty \<Rightarrow> puppet \<Rightarrow> string \<Rightarrow> unit promise" where
  "puppet_roomInvitationAccept r p i w =
     (let w1 = w\<lparr>trace := trace w @ [Accept r i]\<rparr> in
      case acceptFailure p i of Some e \<Rightarrow> (Inl e, w1) | None \<Rightarrow> (Inr (), w1))"

text \<open>
  Modelled from the spec: \<^verbatim>\<open>Contact.load(id) -> ContactHandle\<close> of the bot context
  (the contact class is not part of the sources at hand).
\<close>

definition Contact_load :: "wechaty \<Rightarrow> string \<Rightarrow> contact promise" where
  "Contact_load r c w = (Inr (Contact r c), w\<lparr>trace := trace w @ [ContactLoad r c]\<rparr>)"

text \<open>
  Modelled from the spec: \<^verbatim>\<open>ready()\<close> on a contact handle, which settles as the
  bot context says for that contact.
\<close>

fun ready :: "contact \<Rightarrow> unit promise" where
  "ready (Contact r c) w =
     (let out = contactReady (heap w r) c;
          w1 = w\<lparr>trace := trace w @ [ContactReady r c out]\<rparr>
      in case out of Some e \<Rightarrow> (Inl e, w1) | None \<Rightarrow> (Inr (), w1))"

section \<open>The class \<^verbatim>\<open>RoomInvitation\<close>\<close>

text \<open>\<^verbatim>\<open>static get wechaty\<close>, with the override of the specialized class.\<close>

fun wechaty_static :: "roomInvitationClass \<Rightarrow> error + wechaty" where
  "wechaty_static RoomInvitation =
     Inl (Error ''This class can not be used directly. See: https://github.com/wechaty/wechaty/issues/2027'')"
| "wechaty_static (WechatifiedRoomInvitation wechaty) = Inr wechaty"

text \<open>\<^verbatim>\<open>get wechaty\<close> on an instance, with the override of the specialized class.\<close>

definition wechaty :: "roomInvitation \<Rightarrow> error + wechaty" where
  "wechaty this =
     (case h_class this of
        RoomInvitation \<Rightarrow>
          Inl (Error ''This class can not be used directly. See: https://github.com/wechaty/wechaty/issues/2027'')
      | WechatifiedRoomInvitation wechaty \<Rightarrow> Inr wechaty)"

definition wechatifyRoomInvitation :: "wechaty \<Rightarrow> roomInvitationClass" where
  "wechatifyRoomInvitation wechaty' = WechatifiedRoomInvitation wechaty'"

text \<open>
  \<^verbatim>\<open>X.puppet.method(...)\<close> for \<open>X\<close> the outcome of a \<^verbatim>\<open>wechaty\<close> getter: the getter
  may throw, and a call through a missing puppet is a \<^verbatim>\<open>TypeError\<close>.
\<close>

definition with_puppet ::
  "error + wechaty \<Rightarrow> (wechaty \<Rightarrow> puppet \<Rightarrow> 'a promise) \<Rightarrow> 'a promise" where
  "with_puppet g call w =
     (case g of
        Inl e \<Rightarrow> (Inl e, w)
      | Inr r \<Rightarrow>
          (case puppet (heap w r) of
             None \<Rightarrow> (Inl (TypeError ''Cannot read properties of undefined''), w)
           | Some p \<Rightarrow> call r p w))"

definition constructor :: "roomInvitationClass \<Rightarrow> string \<Rightarrow> roomInvitation promise" where
  "constructor MyClass i =
     await (log Verbose ''RoomInvitation'' ''constructor(id=%s)'' [i]) (\<lambda>_.
       if MyClass = RoomInvitation
       then reject (Error ''RoomInvitation class can not be instantiated directly! See: https://github.com/wechaty/wechaty/issues/1217'')
       else (\<lambda>w.
         case wechaty \<lparr>h_class = MyClass, h_id = i\<rparr> of
           Inl e \<Rightarrow> (Inl e, w)
         | Inr r \<Rightarrow>
             (if puppet (heap w r) = None
              then (Inl (Error ''RoomInvitation class can not be instantiated without a puppet!''), w)
              else (Inr \<lparr>h_class = MyClass, h_id = i\<rparr>, w))))"

definition load :: "roomInvitationClass \<Rightarrow> string \<Rightarrow> roomInvitation promise" where
  "load this i = constructor this i"

definition toString :: "roomInvitation \<Rightarrow> string" where
  "toString this =
     concat [''RoomInvitation#'', or_default truthy_string (Some (h_id this)) ''loading'']"

definition inviter :: "roomInvitation \<Rightarrow> contact promise" where
  "inviter this =
     await (log Verbose ''RoomInvitation'' ''inviter()'' []) (\<lambda>_.
     await (with_puppet (wechaty this) (\<lambda>r p. puppet_roomInvitationPayload r p (h_id this))) (\<lambda>payload.
       case wechaty this of
         Inl e \<Rightarrow> reject e
       | Inr r \<Rightarrow> Contact_load r (p_inviterId payload)))"

definition topic :: "roomInvitation \<Rightarrow> string promise" where
  "topic this =
     await (with_puppet (wechaty this) (\<lambda>r p. puppet_roomInvitationPayload r p (h_id this))) (\<lambda>payload.
       resolve (or_default truthy_string
                  (or_opt truthy_string (p_topic payload) (p_topic payload)) ''''))"

definition memberCount :: "roomInvitation \<Rightarrow> int promise" where
  "memberCount this =
     await (log Verbose ''RoomInvitation'' ''memberCount()'' []) (\<lambda>_.
     await (with_puppet (wechaty this) (\<lambda>r p. puppet_roomInvitationPayload r p (h_id this))) (\<lambda>payload.
       resolve (or_default truthy_number
                  (or_opt truthy_number (p_memberCount payload) (p_memberCount payload)) 0)))"

definition memberList :: "roomInvitation \<Rightarrow> contact list promise" where
  "memberList this =
     await (log Verbose ''RoomInvitation'' ''roomMemberList()'' []) (\<lambda>_.
     await (with_puppet (wechaty this) (\<lambda>r p. puppet_roomInvitationPayload r p (h_id this))) (\<lambda>payload.
       let contactIdList =
             or_default truthy_array
               (or_opt truthy_array (p_memberIdList payload) (p_memberIdList payload)) []
       in
       await (map_sync (\<lambda>c. case wechaty this of
                               Inl e \<Rightarrow> reject e
                             | Inr r \<Rightarrow> Contact_load r c) contactIdList) (\<lambda>contactList.
       await (Promise_all (map ready contactList)) (\<lambda>_.
         resolve contactList))))"

definition date :: "roomInvitation \<Rightarrow> js_date promise" where
  "date this =
     await (log Verbose ''RoomInvitation'' ''date()'' []) (\<lambda>_.
     await (with_puppet (wechaty this) (\<lambda>r p. puppet_roomInvitationPayload r p (h_id this))) (\<lambda>payload.
       (\<lambda>w. (Inr (timestampToDate w (p_timestamp payload)), w))))"

definition age :: "roomInvitation \<Rightarrow> number promise" where
  "age this =
     await (date this) (\<lambda>recvDate. (\<lambda>w.
       let ageMilliseconds = number_minus (Number (Date_now w)) (getTime recvDate);
           ageSeconds = Math_floor_divide ageMilliseconds 1000
       in (Inr ageSeconds, w)))"

definition toStringAsync :: "roomInvitation \<Rightarrow> string promise" where
  "toStringAsync this =
     await (with_puppet (wechaty this) (\<lambda>r p. puppet_roomInvitationPayload r p (h_id this))) (\<lambda>payload.
       resolve (concat [''RoomInvitation#'', h_id this, ''<'',
                        (case p_topic payload of None \<Rightarrow> [] | Some t \<Rightarrow> t), '','',
                        p_inviterId payload, ''>'']))"

text \<open>
  In the two log lines of \<^verbatim>\<open>accept\<close> the inviter is printed by its id (how a
  contact prints is the contact class's business).
\<close>

definition accept :: "roomInvitation \<Rightarrow> unit promise" where
  "accept this =
     await (log Verbose ''RoomInvitation'' ''accept()'' []) (\<lambda>_.
     await (with_puppet (wechaty this) (\<lambda>r p. puppet_roomInvitationAccept r p (h_id this))) (\<lambda>_.
     await (inviter this) (\<lambda>inviter.
     await (topic this) (\<lambda>topic.
       try_catch
         (await (ready inviter) (\<lambda>_.
          await (log Verbose ''RoomInvitation'' ''accept() with room(%s) & inviter(%s) ready()''
                   [topic, contact_id inviter]) (\<lambda>_.
            resolve ())))
         (\<lambda>e. log Warn ''RoomInvitation'' ''accept() inviter(%s) is not ready because of %s''
                 [contact_id inviter, message_or_error e])))))"

text \<open>The argument of \<^verbatim>\<open>fromJSON\<close>: \<^verbatim>\<open>string | RoomInvitationPayload\<close>.\<close>

datatype json_input = Text string | Object payload

text \<open>
  Modelled from the spec: \<^verbatim>\<open>wechaty.RoomInvitation\<close>, the entity factory of the bot
  context, is the invitation class specialized to that context.
\<close>

definition wechaty_RoomInvitation :: "wechaty \<Rightarrow> roomInvitationClass" where
  "wechaty_RoomInvitation r = wechatifyRoomInvitation r"

definition fromJSON :: "roomInvitationClass \<Rightarrow> json_input \<Rightarrow> roomInvitation promise" where
  "fromJSON this input =
     await (\<lambda>w. log Verbose ''RoomInvitation'' ''fromJSON(%s)''
                  [case input of Text s \<Rightarrow> s | Object p \<Rightarrow> JSON_stringify w p] w) (\<lambda>_.
     await (case input of Text s \<Rightarrow> (\<lambda>w. (JSON_parse w s, w)) | Object p \<Rightarrow> resolve p) (\<lambda>payload.
     await (with_puppet (wechaty_static this)
              (\<lambda>r p. puppet_roomInvitationPayload_set r p (p_id payload) payload)) (\<lambda>_.
       case wechaty_static this of
         Inl e \<Rightarrow> reject e
       | Inr r \<Rightarrow> load (wechaty_RoomInvitation r) (p_id payload))))"

definition toJSON :: "roomInvitation \<Rightarrow> string promise" where
  "toJSON this =
     await (log Verbose ''RoomInvitation'' ''toJSON()'' []) (\<lambda>_.
     await (with_puppet (wechaty this) (\<lambda>r p. puppet_roomInvitationPayload r p (h_id this))) (\<lambda>payload.
       (\<lambda>w. (Inr (JSON_stringify w payload), w))))"

section \<open>Fixtures\<close>

text \<open>
  The invitation of the specification's scenario, a second invitation with every
  optional field missing and an inviter who never becomes ready, and a third one
  stamped half a second after the clock of \<open>mock_world\<close>.
\<close>

definition scenario_payload :: payload where
  "scenario_payload =
     \<lparr>p_id = ''i1'', p_topic = Some ''T'', p_inviterId = ''c1'', p_memberCount = Some 3,
      p_memberIdList = Some [''c1'', ''c2'', ''c3''], p_timestamp = Some 1234567890\<rparr>"

definition bare_payload :: payload where
  "bare_payload =
     \<lparr>p_id = ''i2'', p_topic = None, p_inviterId = ''c9'', p_memberCount = None,
      p_memberIdList = None, p_timestamp = None\<rparr>"

definition early_payload :: payload where
  "early_payload =
     \<lparr>p_id = ''i5'', p_topic = Some ''T'', p_inviterId = ''c1'', p_memberCount = Some 3,
      p_memberIdList = Some [''c1'', ''c2'', ''c3''], p_timestamp = Some 1234567905\<rparr>"

definition scenario_text :: string where
  \<open>scenario_text =
     ''{"id":"i1","topic":"T","inviterId":"c1","memberCount":3,"memberIdList":["c1","c2","c3"],"timestamp":1234567890}''\<close>

text \<open>
  A backend in memory: it knows the three invitations, refuses to store under
  \<open>''i3''\<close> and refuses to accept \<open>''i4''\<close>.
\<close>

definition mock_puppet :: puppet where
  "mock_puppet =
     \<lparr>payloadOf = (\<lambda>i. if i = ''i1'' then Inr scenario_payload
                       else if i = ''i2'' then Inr bare_payload
                       else if i = ''i5'' then Inr early_payload
                       else Inl (Error ''no such invitation'')),
      storeFailure = (\<lambda>i pl. if i = ''i3'' then Some (Error ''store is read-only'') else None),
      acceptFailure = (\<lambda>i. if i = ''i4'' then Some (Error ''invitation expired'') else None)\<rparr>"

text \<open>
  A host whose decoder knows one document, whose timestamps are seconds (a missing
  one gives an Invalid Date, as \<^verbatim>\<open>new Date(undefined)\<close> is), and whose clock stands
  14.5 seconds after the scenario's timestamp. Context \<open>0\<close> has the puppet, every other context has none.
\<close>

definition mock_world :: world where
  "mock_world =
     \<lparr>heap = (\<lambda>r. if r = 0
                   then \<lparr>puppet = Some mock_puppet,
                         contactReady = (\<lambda>c. if c = ''c9'' then Some (Error ''timeout'') else None)\<rparr>
                   else \<lparr>puppet = None, contactReady = (\<lambda>c. None)\<rparr>),
      JSON_parse = (\<lambda>s. if s = scenario_text then Inr scenario_payload
                        else Inl (SyntaxError ''Unexpected token'')),
      JSON_stringify = (\<lambda>pl. if pl = scenario_payload then scenario_text else ''{}''),
      timestampToDate = (\<lambda>t. case t of None \<Rightarrow> Invalid_Date | Some s \<Rightarrow> Date (s * 1000)),
      Date_now = 1234567904500,
      trace = []\<rparr>"

definition mock_invitation :: "string \<Rightarrow> roomInvitation" where
  "mock_invitation i = \<lparr>h_class = wechatifyRoomInvitation 0, h_id = i\<rparr>"

text \<open>
  The reading of "truncated to a whole number" in the specification of \<open>age\<close>:
  the fraction of a second is cut off, on either side of zero.
\<close>

definition truncated_seconds :: "int \<Rightarrow> int" where
  "truncated_seconds ms = sgn ms * (\<bar>ms\<bar> div 1000)"

text \<open>The first rejection among the \<^verbatim>\<open>ready()\<close> waits on a list of contacts.\<close>

fun first_rejection :: "(string \<Rightarrow> error option) \<Rightarrow> string list \<Rightarrow> error option" where
  "first_rejection f [] = None"
| "first_rejection f (c # cs) =
     (case f c of Some e \<Rightarrow> Some e | None \<Rightarrow> first_rejection f cs)"

section \<open>Programs over one specialized class\<close>

text \<open>The context an entry of the trace is addressed to, if it is a call at all.\<close>

fun event_context :: "event \<Rightarrow> wechaty option" where
  "event_context (Log l m fmt args) = None"
| "event_context (PayloadGet r i) = Some r"
| "event_context (PayloadSet r i pl) = Some r"
| "event_context (Accept r i) = Some r"
| "event_context (ContactLoad r c) = Some r"
| "event_context (ContactReady r c out) = Some r"

text \<open>
  What a program can do with one class: \<^verbatim>\<open>load\<close> a handle, restore one with
  \<^verbatim>\<open>fromJSON\<close>, and call \<^verbatim>\<open>accept\<close> or a read on a handle it holds, named by
  its position among the handles obtained so far.
\<close>

datatype operation =
    Do_load string
  | Do_fromJSON json_input
  | Do_accept nat
  | Do_inviter nat
  | Do_topic nat
  | Do_memberCount nat
  | Do_memberList nat
  | Do_date nat
  | Do_age nat
  | Do_toJSON nat
  | Do_toStringAsync nat

text \<open>The world, and the handles the program holds, in the order it obtained them.\<close>

type_synonym session = "world \<times> roomInvitation list"

text \<open>
  \<open>obtain_handle\<close> runs an operation that returns a handle and keeps the handle
  when there is one; \<open>on_handle\<close> runs an operation on the \<open>n\<close>-th handle held
  and drops its result (a position with no handle is no operation).
\<close>

definition obtain_handle :: "roomInvitation promise \<Rightarrow> session \<Rightarrow> session" where
  "obtain_handle m s =
     (case m (fst s) of
        (Inl e, w') \<Rightarrow> (w', snd s)
      | (Inr h, w') \<Rightarrow> (w', snd s @ [h]))"

definition on_handle :: "(roomInvitation \<Rightarrow> 'a promise) \<Rightarrow> nat \<Rightarrow> session \<Rightarrow> session" where
  "on_handle f n s =
     (if n < length (snd s) then (snd (f (snd s ! n) (fst s)), snd s) else s)"

fun perform :: "roomInvitationClass \<Rightarrow> operation \<Rightarrow> session \<Rightarrow> session" where
  "perform C (Do_load i) = obtain_handle (load C i)"
| "perform C (Do_fromJSON input) = obtain_handle (fromJSON C input)"
| "perform C (Do_accept n) = on_handle accept n"
| "perform C (Do_inviter n) = on_handle inviter n"
| "perform C (Do_topic n) = on_handle topic n"
| "perform C (Do_memberCount n) = on_handle memberCount n"
| "perform C (Do_memberList n) = on_handle memberList n"
| "perform C (Do_date n) = on_handle date n"
| "perform C (Do_age n) = on_handle age n"
| "perform C (Do_toJSON n) = on_handle toJSON n"
| "perform C (Do_toStringAsync n) = on_handle toStringAsync n"

text \<open>A sequence of operations, one after the other.\<close>

definition run :: "roomInvitationClass \<Rightarrow> operation list \<Rightarrow> session \<Rightarrow> session" where
  "run C ops s = fold (perform C) ops s"

text \<open>
  From \<open>w\<close> to \<open>w'\<close> the trace has only grown, by calls addressed to \<open>r\<close> and by
  log lines, and no context but \<open>r\<close> has changed; an operation is confined to \<open>r\<close>
  when this holds from every world to the world it leaves.
\<close>

definition acts_only_on :: "wechaty \<Rightarrow> world \<Rightarrow> world \<Rightarrow> bool" where
  "acts_only_on r w w' \<longleftrightarrow>
     (\<exists>evs. trace w' = trace w @ evs
            \<and> (\<forall>ev \<in> set evs. event_context ev = None \<or> event_context ev = Some r))
     \<and> (\<forall>r'. r' \<noteq> r \<longrightarrow> heap w' r' = heap w r')"

definition confined :: "wechaty \<Rightarrow> 'a promise \<Rightarrow> bool" where
  "confined r m \<longleftrightarrow> (\<forall>w. acts_only_on r w (snd (m w)))"

section \<open>How the operations run\<close>

lemma mock_heap_0:
  "heap mock_world 0 =
     \<lparr>puppet = Some mock_puppet,
      contactReady = (\<lambda>c. if c = ''c9'' then Some (Error ''timeout'') else None)\<rparr>"
  by (simp add: mock_world_def)

lemma mock_heap_1: "puppet (heap mock_world (Suc 0)) = None"
  by (simp add: mock_world_def)

lemma mock_class: "h_class (mock_invitation i) = WechatifiedRoomInvitation 0"
  by (simp add: mock_invitation_def wechatifyRoomInvitation_def)

lemma mock_id: "h_id (mock_invitation i) = i"
  by (simp add: mock_invitation_def)

lemma wechaty_bound:
  "h_class this = WechatifiedRoomInvitation r \<Longrightarrow> wechaty this = Inr r"
  by (simp add: wechaty_def)

lemma fetch_run:
  assumes "puppet (heap w r) = Some p"
  shows "with_puppet (Inr r) (\<lambda>r p. puppet_roomInvitationPayload r p i) w
         = (payloadOf p i, w\<lparr>trace := trace w @ [PayloadGet r i]\<rparr>)"
  using assms by (simp add: with_puppet_def puppet_roomInvitationPayload_def)

lemma constructor_run:
  assumes "puppet (heap w r) \<noteq> None"
  shows "constructor (WechatifiedRoomInvitation r) i w =
           (Inr \<lparr>h_class = WechatifiedRoomInvitation r, h_id = i\<rparr>,
            w\<lparr>trace := trace w @ [Log Verbose ''RoomInvitation'' ''constructor(id=%s)'' [i]]\<rparr>)"
  using assms by (simp add: constructor_def await_def log_def wechaty_def)

lemma topic_run:
  assumes "h_class this = WechatifiedRoomInvitation r" and "puppet (heap w r) = Some p"
    and "payloadOf p (h_id this) = Inr pl"
  shows "topic this w =
           (Inr (or_default truthy_string (p_topic pl) []),
            w\<lparr>trace := trace w @ [PayloadGet r (h_id this)]\<rparr>)"
  using assms by (simp add: topic_def await_def wechaty_bound fetch_run resolve_def or_opt_def)

lemma memberCount_run:
  assumes "h_class this = WechatifiedRoomInvitation r" and "puppet (heap w r) = Some p"
    and "payloadOf p (h_id this) = Inr pl"
  shows "memberCount this w =
           (Inr (or_default truthy_number (p_memberCount pl) 0),
            w\<lparr>trace := trace w @ [Log Verbose ''RoomInvitation'' ''memberCount()'' [],
                                  PayloadGet r (h_id this)]\<rparr>)"
  using assms
  by (simp add: memberCount_def await_def log_def wechaty_bound fetch_run resolve_def or_opt_def)

lemma date_run:
  assumes "h_class this = WechatifiedRoomInvitation r" and "puppet (heap w r) = Some p"
    and "payloadOf p (h_id this) = Inr pl"
  shows "date this w =
           (Inr (timestampToDate w (p_timestamp pl)),
            w\<lparr>trace := trace w @ [Log Verbose ''RoomInvitation'' ''date()'' [],
                                  PayloadGet r (h_id this)]\<rparr>)"
  using assms by (simp add: date_def await_def log_def wechaty_bound fetch_run)

lemma age_run:
  assumes "h_class this = WechatifiedRoomInvitation r" and "puppet (heap w r) = Some p"
    and "payloadOf p (h_id this) = Inr pl"
  shows "age this w =
           (Inr (Math_floor_divide
                   (number_minus (Number (Date_now w))
                      (getTime (timestampToDate w (p_timestamp pl)))) 1000),
            w\<lparr>trace := trace w @ [Log Verbose ''RoomInvitation'' ''date()'' [],
                                  PayloadGet r (h_id this)]\<rparr>)"
  using assms by (simp add: age_def await_def date_run)

lemma inviter_run:
  assumes "h_class this = WechatifiedRoomInvitation r" and "puppet (heap w r) = Some p"
    and "payloadOf p (h_id this) = Inr pl"
  shows "inviter this w =
           (Inr (Contact r (p_inviterId pl)),
            w\<lparr>trace := trace w @ [Log Verbose ''RoomInvitation'' ''inviter()'' [],
                                  PayloadGet r (h_id this), ContactLoad r (p_inviterId pl)]\<rparr>)"
  using assms
  by (simp add: inviter_def await_def log_def wechaty_bound fetch_run Contact_load_def)

lemma toJSON_run:
  assumes "h_class this = WechatifiedRoomInvitation r" and "puppet (heap w r) = Some p"
    and "payloadOf p (h_id this) = Inr pl"
  shows "toJSON this w =
           (Inr (JSON_stringify w pl),
            w\<lparr>trace := trace w @ [Log Verbose ''RoomInvitation'' ''toJSON()'' [],
                                  PayloadGet r (h_id this)]\<rparr>)"
  using assms by (simp add: toJSON_def await_def log_def wechaty_bound fetch_run)

lemma map_sync_Contact_load:
  "map_sync (Contact_load r) ids w =
     (Inr (map (Contact r) ids), w\<lparr>trace := trace w @ map (ContactLoad r) ids\<rparr>)"
proof (induction ids arbitrary: w)
  case Nil
  show ?case by simp
next
  case (Cons c cs)
  have "Contact_load r c w = (Inr (Contact r c), w\<lparr>trace := trace w @ [ContactLoad r c]\<rparr>)"
    by (simp add: Contact_load_def)
  then show ?case
    by (simp add: Cons.IH)
qed

declare ready.simps [simp del]

lemma ready_run:
  "ready (Contact r c) w =
     ((case contactReady (heap w r) c of Some e \<Rightarrow> Inl e | None \<Rightarrow> Inr ()),
      w\<lparr>trace := trace w @ [ContactReady r c (contactReady (heap w r) c)]\<rparr>)"
  by (simp add: ready.simps split: option.splits)

lemma Promise_all_ready:
  "Promise_all (map (ready \<circ> Contact r) ids) w =
     ((case first_rejection (contactReady (heap w r)) ids of
         Some e \<Rightarrow> Inl e
       | None \<Rightarrow> Inr (map (\<lambda>c. ()) ids)),
      w\<lparr>trace := trace w @ map (\<lambda>c. ContactReady r c (contactReady (heap w r) c)) ids\<rparr>)"
proof (induction ids arbitrary: w)
  case Nil
  show ?case by simp
next
  case (Cons c cs)
  have step: "(ready \<circ> Contact r) c w =
     ((case contactReady (heap w r) c of Some e \<Rightarrow> Inl e | None \<Rightarrow> Inr ()),
      w\<lparr>trace := trace w @ [ContactReady r c (contactReady (heap w r) c)]\<rparr>)"
    by (simp add: ready_run)
  have "Promise_all (map (ready \<circ> Contact r) (c # cs)) w =
     (case (ready \<circ> Contact r) c w of (r', w1) \<Rightarrow>
        (case Promise_all (map (ready \<circ> Contact r) cs) w1 of (rs, w2) \<Rightarrow>
           (case r' of
              Inl e \<Rightarrow> (Inl e, w2)
            | Inr x \<Rightarrow> (case rs of Inl e \<Rightarrow> (Inl e, w2) | Inr xs \<Rightarrow> (Inr (x # xs), w2)))))"
    by (simp only: list.map Promise_all.simps)
  then have "Promise_all (map (ready \<circ> Contact r) (c # cs)) w =
     (case Promise_all (map (ready \<circ> Contact r) cs)
             (w\<lparr>trace := trace w @ [ContactReady r c (contactReady (heap w r) c)]\<rparr>)
      of (rs, w2) \<Rightarrow>
           (case (case contactReady (heap w r) c of Some e \<Rightarrow> Inl e | None \<Rightarrow> Inr ()) of
              Inl e \<Rightarrow> (Inl e, w2)
            | Inr x \<Rightarrow> (case rs of Inl e \<Rightarrow> (Inl e, w2) | Inr xs \<Rightarrow> (Inr (x # xs), w2))))"
    by (simp only: step prod.case)
  then show ?case
    by (simp only: Cons.IH) (simp split: option.splits)
qed

lemma memberList_run:
  assumes "h_class this = WechatifiedRoomInvitation r" and "puppet (heap w r) = Some p"
    and "payloadOf p (h_id this) = Inr pl"
    and "ids = or_default truthy_array (p_memberIdList pl) []"
  shows "memberList this w =
           ((case first_rejection (contactReady (heap w r)) ids of
               Some e \<Rightarrow> Inl e
             | None \<Rightarrow> Inr (map (Contact r) ids)),
            w\<lparr>trace := trace w
                  @ [Log Verbose ''RoomInvitation'' ''roomMemberList()'' [],
                     PayloadGet r (h_id this)]
                  @ map (ContactLoad r) ids
                  @ map (\<lambda>c. ContactReady r c (contactReady (heap w r) c)) ids\<rparr>)"
proof -
  have loads: "(\<lambda>c. case wechaty this of Inl e \<Rightarrow> reject e | Inr r \<Rightarrow> Contact_load r c)
                 = Contact_load r"
    using assms(1) by (simp add: wechaty_bound)
  show ?thesis
    using assms
    by (simp add: memberList_def await_def log_def wechaty_bound fetch_run or_opt_def
          map_sync_Contact_load Promise_all_ready resolve_def
          split: option.splits)
qed

lemma accept_call_run:
  assumes "puppet (heap w r) = Some p"
  shows "with_puppet (Inr r) (\<lambda>r p. puppet_roomInvitationAccept r p i) w
         = ((case acceptFailure p i of Some e \<Rightarrow> Inl e | None \<Rightarrow> Inr ()),
            w\<lparr>trace := trace w @ [Accept r i]\<rparr>)"
  using assms
  by (simp add: with_puppet_def puppet_roomInvitationAccept_def split: option.splits)

lemma accept_run:
  assumes "h_class this = WechatifiedRoomInvitation r" and "puppet (heap w r) = Some p"
    and "acceptFailure p (h_id this) = None"
    and "payloadOf p (h_id this) = Inr pl"
  shows "accept this w =
           (Inr (),
            w\<lparr>trace := trace w
                  @ [Log Verbose ''RoomInvitation'' ''accept()'' [],
                     Accept r (h_id this),
                     Log Verbose ''RoomInvitation'' ''inviter()'' [],
                     PayloadGet r (h_id this),
                     ContactLoad r (p_inviterId pl),
                     PayloadGet r (h_id this),
                     ContactReady r (p_inviterId pl) (contactReady (heap w r) (p_inviterId pl)),
                     (case contactReady (heap w r) (p_inviterId pl) of
                        None \<Rightarrow>
                          Log Verbose ''RoomInvitation''
                            ''accept() with room(%s) & inviter(%s) ready()''
                            [or_default truthy_string (p_topic pl) [], p_inviterId pl]
                      | Some e \<Rightarrow>
                          Log Warn ''RoomInvitation''
                            ''accept() inviter(%s) is not ready because of %s''
                            [p_inviterId pl, message_or_error e])]\<rparr>)"
proof -
  have "puppet (heap (w\<lparr>trace := trace w @ [Log Verbose ''RoomInvitation'' ''accept()'' []]\<rparr>) r)
          = Some p"
    using assms(2) by simp
  from accept_call_run [OF this, of "h_id this"] assms(3)
  have call: "with_puppet (Inr r) (\<lambda>r p. puppet_roomInvitationAccept r p (h_id this))
                (w\<lparr>trace := trace w @ [Log Verbose ''RoomInvitation'' ''accept()'' []]\<rparr>)
              = (Inr (), w\<lparr>trace := trace w @ [Log Verbose ''RoomInvitation'' ''accept()'' [],
                                               Accept r (h_id this)]\<rparr>)"
    by simp
  show ?thesis
    using assms
    by (simp add: accept_def await_def try_catch_def log_def wechaty_bound call
          inviter_run topic_run ready_run resolve_def
          split: option.splits)
qed

lemma store_run:
  assumes "puppet (heap w r) = Some p"
  shows "with_puppet (Inr r) (\<lambda>r p. puppet_roomInvitationPayload_set r p i pl) w
         = (case storeFailure p i pl of
              Some e \<Rightarrow> (Inl e, w\<lparr>trace := trace w @ [PayloadSet r i pl]\<rparr>)
            | None \<Rightarrow>
                (Inr (),
                 w\<lparr>heap := (heap w)
                      (r := (heap w r)\<lparr>puppet :=
                              Some (p\<lparr>payloadOf := (payloadOf p)(i := Inr pl)\<rparr>)\<rparr>),
                   trace := trace w @ [PayloadSet r i pl]\<rparr>))"
  using assms
  by (simp add: with_puppet_def puppet_roomInvitationPayload_set_def Let_def
        split: option.splits)

lemma fromJSON_run:
  assumes "puppet (heap w r) = Some p"
    and "(case input of Text s \<Rightarrow> JSON_parse w s | Object q \<Rightarrow> Inr q) = Inr pl"
    and "storeFailure p (p_id pl) pl = None"
  shows "fromJSON (WechatifiedRoomInvitation r) input w =
           (Inr \<lparr>h_class = WechatifiedRoomInvitation r, h_id = p_id pl\<rparr>,
            w\<lparr>heap := (heap w)
                 (r := (heap w r)\<lparr>puppet :=
                         Some (p\<lparr>payloadOf := (payloadOf p)(p_id pl := Inr pl)\<rparr>)\<rparr>),
              trace := trace w
                 @ [Log Verbose ''RoomInvitation'' ''fromJSON(%s)''
                      [case input of Text s \<Rightarrow> s | Object q \<Rightarrow> JSON_stringify w q],
                    PayloadSet r (p_id pl) pl,
                    Log Verbose ''RoomInvitation'' ''constructor(id=%s)'' [p_id pl]]\<rparr>)"
proof (cases input)
  case (Text s)
  with assms show ?thesis
    by (simp add: fromJSON_def await_def log_def store_run load_def
          wechaty_RoomInvitation_def wechatifyRoomInvitation_def constructor_run)
next
  case (Object q)
  with assms show ?thesis
    by (simp add: fromJSON_def await_def log_def resolve_def store_run load_def
          wechaty_RoomInvitation_def wechatifyRoomInvitation_def constructor_run)
qed

lemma fromJSON_store_fails:
  assumes "puppet (heap w r) = Some p"
    and "(case input of Text s \<Rightarrow> JSON_parse w s | Object q \<Rightarrow> Inr q) = Inr pl"
    and "storeFailure p (p_id pl) pl = Some e"
  shows "fromJSON (WechatifiedRoomInvitation r) input w =
           (Inl e,
            w\<lparr>trace := trace w
                 @ [Log Verbose ''RoomInvitation'' ''fromJSON(%s)''
                      [case input of Text s \<Rightarrow> s | Object q \<Rightarrow> JSON_stringify w q],
                    PayloadSet r (p_id pl) pl]\<rparr>)"
proof (cases input)
  case (Text s)
  with assms show ?thesis
    by (simp add: fromJSON_def await_def log_def store_run)
next
  case (Object q)
  with assms show ?thesis
    by (simp add: fromJSON_def await_def log_def resolve_def store_run)
qed

lemma fromJSON_parse_fails:
  assumes "JSON_parse w s = Inl e"
  shows "fromJSON this (Text s) w =
           (Inl e, w\<lparr>trace := trace w @ [Log Verbose ''RoomInvitation'' ''fromJSON(%s)'' [s]]\<rparr>)"
  using assms by (simp add: fromJSON_def await_def log_def)

lemma reads_reject:
  assumes "h_class this = WechatifiedRoomInvitation r" and "puppet (heap w r) = Some p"
    and "payloadOf p (h_id this) = Inl e"
  shows "fst (toStringAsync this w) = Inl e"
    and "fst (inviter this w) = Inl e"
    and "fst (topic this w) = Inl e"
    and "fst (memberCount this w) = Inl e"
    and "fst (memberList this w) = Inl e"
    and "fst (date this w) = Inl e"
    and "fst (toJSON this w) = Inl e"
  using assms
  by (simp_all add: toStringAsync_def inviter_def topic_def memberCount_def memberList_def
        date_def toJSON_def await_def log_def wechaty_bound fetch_run)

lemma age_rejects:
  assumes "h_class this = WechatifiedRoomInvitation r" and "puppet (heap w r) = Some p"
    and "payloadOf p (h_id this) = Inl e"
  shows "fst (age this w) = Inl e"
  using assms
  by (simp add: age_def date_def await_def log_def wechaty_bound fetch_run)

lemma accept_rejects_refused:
  assumes "h_class this = WechatifiedRoomInvitation r" and "puppet (heap w r) = Some p"
    and "acceptFailure p (h_id this) = Some e"
  shows "fst (accept this w) = Inl e"
  using assms
  by (simp add: accept_def await_def log_def wechaty_bound accept_call_run)

lemma accept_rejects_unfetched:
  assumes "h_class this = WechatifiedRoomInvitation r" and "puppet (heap w r) = Some p"
    and "acceptFailure p (h_id this) = None"
    and "payloadOf p (h_id this) = Inl e"
  shows "fst (accept this w) = Inl e"
  using assms
  by (simp add: accept_def inviter_def await_def log_def wechaty_bound accept_call_run fetch_run)

lemma constructor_base:
  "constructor RoomInvitation i w =
     (Inl (Error ''RoomInvitation class can not be instantiated directly! See: https://github.com/wechaty/wechaty/issues/1217''),
      w\<lparr>trace := trace w @ [Log Verbose ''RoomInvitation'' ''constructor(id=%s)'' [i]]\<rparr>)"
  by (simp add: constructor_def await_def log_def reject_def)

lemma constructor_no_puppet:
  assumes "puppet (heap w r) = None"
  shows "constructor (WechatifiedRoomInvitation r) i w =
     (Inl (Error ''RoomInvitation class can not be instantiated without a puppet!''),
      w\<lparr>trace := trace w @ [Log Verbose ''RoomInvitation'' ''constructor(id=%s)'' [i]]\<rparr>)"
  using assms by (simp add: constructor_def await_def log_def wechaty_def)

lemma acts_refl: "acts_only_on r w w"
  by (simp add: acts_only_on_def)

lemma acts_trans:
  assumes "acts_only_on r w w1" and "acts_only_on r w1 w2"
  shows "acts_only_on r w w2"
proof -
  from assms(1) obtain evs1 where
    e1: "trace w1 = trace w @ evs1"
        "\<forall>ev \<in> set evs1. event_context ev = None \<or> event_context ev = Some r"
    and f1: "\<forall>r'. r' \<noteq> r \<longrightarrow> heap w1 r' = heap w r'"
    by (auto simp add: acts_only_on_def)
  from assms(2) obtain evs2 where
    e2: "trace w2 = trace w1 @ evs2"
        "\<forall>ev \<in> set evs2. event_context ev = None \<or> event_context ev = Some r"
    and f2: "\<forall>r'. r' \<noteq> r \<longrightarrow> heap w2 r' = heap w1 r'"
    by (auto simp add: acts_only_on_def)
  have "trace w2 = trace w @ (evs1 @ evs2)"
    using e1(1) e2(1) by simp
  moreover have "\<forall>ev \<in> set (evs1 @ evs2). event_context ev = None \<or> event_context ev = Some r"
    using e1(2) e2(2) by auto
  moreover have "\<forall>r'. r' \<noteq> r \<longrightarrow> heap w2 r' = heap w r'"
    using f1 f2 by simp
  ultimately show ?thesis
    unfolding acts_only_on_def by blast
qed

lemma acts_event:
  assumes "event_context ev = None \<or> event_context ev = Some r"
  shows "acts_only_on r w (w\<lparr>trace := trace w @ [ev]\<rparr>)"
  using assms by (auto simp add: acts_only_on_def)

lemma confined_pure: "confined r (\<lambda>w. (g w, w))"
  by (simp add: confined_def acts_refl)

lemma confined_resolve: "confined r (resolve x)"
  by (simp add: confined_def resolve_def acts_refl)

lemma confined_reject: "confined r (reject e)"
  by (simp add: confined_def reject_def acts_refl)

lemma confined_await:
  assumes "confined r m" and "\<And>x. confined r (f x)"
  shows "confined r (await m f)"
proof -
  have "acts_only_on r w (snd (await m f w))" for w
  proof (cases "m w")
    case (Pair res w')
    with assms(1) have a: "acts_only_on r w w'"
      by (metis confined_def snd_conv)
    show ?thesis
    proof (cases res)
      case (Inl e)
      with Pair a show ?thesis by (simp add: await_def)
    next
      case (Inr x)
      from assms(2) have "acts_only_on r w' (snd (f x w'))"
        by (simp add: confined_def)
      with a have "acts_only_on r w (snd (f x w'))"
        by (rule acts_trans)
      with Pair Inr show ?thesis by (simp add: await_def)
    qed
  qed
  then show ?thesis by (simp add: confined_def)
qed

lemma confined_try_catch:
  assumes "confined r m" and "\<And>e. confined r (h e)"
  shows "confined r (try_catch m h)"
proof -
  have "acts_only_on r w (snd (try_catch m h w))" for w
  proof (cases "m w")
    case (Pair res w')
    with assms(1) have a: "acts_only_on r w w'"
      by (metis confined_def snd_conv)
    show ?thesis
    proof (cases res)
      case (Inr x)
      with Pair a show ?thesis by (simp add: try_catch_def)
    next
      case (Inl e)
      from assms(2) have "acts_only_on r w' (snd (h e w'))"
        by (simp add: confined_def)
      with a have "acts_only_on r w (snd (h e w'))"
        by (rule acts_trans)
      with Pair Inl show ?thesis by (simp add: try_catch_def)
    qed
  qed
  then show ?thesis by (simp add: confined_def)
qed

lemma confined_log: "confined r (log l m fmt args)"
  by (simp add: confined_def log_def acts_event)

lemma confined_fetch:
  "confined r (with_puppet (Inr r) (\<lambda>r p. puppet_roomInvitationPayload r p i))"
  by (auto simp add: confined_def with_puppet_def puppet_roomInvitationPayload_def
        acts_refl acts_event split: option.splits)

lemma confined_accept_call:
  "confined r (with_puppet (Inr r) (\<lambda>r p. puppet_roomInvitationAccept r p i))"
  by (auto simp add: confined_def with_puppet_def puppet_roomInvitationAccept_def Let_def
        acts_refl acts_event split: option.splits)

lemma confined_store:
  "confined r (with_puppet (Inr r) (\<lambda>r p. puppet_roomInvitationPayload_set r p i pl))"
  by (auto simp add: confined_def with_puppet_def puppet_roomInvitationPayload_set_def Let_def
        acts_refl acts_event acts_only_on_def split: option.splits)

lemma confined_Contact_load: "confined r (Contact_load r c)"
  by (simp add: confined_def Contact_load_def acts_event)

lemma confined_ready: "confined r (ready (Contact r c))"
  by (auto simp add: confined_def ready_run acts_event)


lemma confined_map_sync:
  assumes "\<And>x. confined r (f x)"
  shows "confined r (map_sync f xs)"
proof -
  have "acts_only_on r w (snd (map_sync f xs w))" for w
  proof (induction xs arbitrary: w)
    case Nil
    show ?case by (simp add: acts_refl)
  next
    case (Cons x xs)
    obtain res w1 where m: "f x w = (res, w1)"
      by (cases "f x w")
    with assms have a: "acts_only_on r w w1"
      by (metis confined_def snd_conv)
    show ?case
    proof (cases res)
      case (Inl e)
      with m a show ?thesis by simp
    next
      case (Inr y)
      from Cons.IH have "acts_only_on r w1 (snd (map_sync f xs w1))" .
      with a have "acts_only_on r w (snd (map_sync f xs w1))"
        by (rule acts_trans)
      with m Inr show ?thesis
        by (auto split: prod.splits sum.splits)
    qed
  qed
  then show ?thesis by (simp add: confined_def)
qed

lemma confined_Promise_all:
  assumes "\<And>m. m \<in> set ms \<Longrightarrow> confined r m"
  shows "confined r (Promise_all ms)"
proof -
  have "acts_only_on r w (snd (Promise_all ms w))" for w
    using assms
  proof (induction ms arbitrary: w)
    case Nil
    show ?case by (simp add: acts_refl)
  next
    case (Cons m ms)
    obtain res w1 where m: "m w = (res, w1)"
      by (cases "m w")
    from Cons.prems have "confined r m" by simp
    with m have a: "acts_only_on r w w1"
      by (metis confined_def snd_conv)
    from Cons.IH Cons.prems have "acts_only_on r w1 (snd (Promise_all ms w1))"
      by simp
    with a have "acts_only_on r w (snd (Promise_all ms w1))"
      by (rule acts_trans)
    with m show ?case
      by (auto split: prod.splits sum.splits)
  qed
  then show ?thesis by (simp add: confined_def)
qed

lemma confined_readies:
  assumes "\<And>c. c \<in> set cs \<Longrightarrow> \<exists>i. c = Contact r i"
  shows "confined r (Promise_all (map ready cs))"
proof (rule confined_Promise_all)
  fix m assume "m \<in> set (map ready cs)"
  then obtain c where "c \<in> set cs" "m = ready c" by auto
  moreover from this assms obtain i where "c = Contact r i" by blast
  ultimately show "confined r m"
    by (simp add: confined_ready)
qed

lemma map_sync_contacts:
  assumes "map_sync (Contact_load r) ids w = (Inr cs, w')" and "c \<in> set cs"
  shows "\<exists>i. c = Contact r i"
  using assms by (auto simp add: map_sync_Contact_load)

lemmas confined_intros =
  confined_await confined_try_catch confined_log confined_fetch confined_accept_call
  confined_store confined_Contact_load confined_ready confined_resolve confined_reject
  confined_pure

lemma confined_topic:
  assumes "h_class this = WechatifiedRoomInvitation r"
  shows "confined r (topic this)"
  unfolding topic_def wechaty_bound [OF assms]
  by (intro confined_intros)

lemma confined_memberCount:
  assumes "h_class this = WechatifiedRoomInvitation r"
  shows "confined r (memberCount this)"
  unfolding memberCount_def wechaty_bound [OF assms]
  by (intro confined_intros)

lemma confined_date:
  assumes "h_class this = WechatifiedRoomInvitation r"
  shows "confined r (date this)"
  unfolding date_def wechaty_bound [OF assms]
  by (intro confined_intros)

lemma confined_age:
  assumes "h_class this = WechatifiedRoomInvitation r"
  shows "confined r (age this)"
  unfolding age_def
  by (intro confined_await confined_date [OF assms]) (simp add: Let_def confined_pure)

lemma confined_toJSON:
  assumes "h_class this = WechatifiedRoomInvitation r"
  shows "confined r (toJSON this)"
  unfolding toJSON_def wechaty_bound [OF assms]
  by (intro confined_intros)

lemma confined_toStringAsync:
  assumes "h_class this = WechatifiedRoomInvitation r"
  shows "confined r (toStringAsync this)"
  unfolding toStringAsync_def wechaty_bound [OF assms]
  by (intro confined_intros)

lemma confined_inviter:
  assumes "h_class this = WechatifiedRoomInvitation r"
  shows "confined r (inviter this)"
  unfolding inviter_def wechaty_bound [OF assms]
  by (simp add: confined_intros)


lemma confined_await_on:
  assumes "confined r m" and "\<And>w x w'. m w = (Inr x, w') \<Longrightarrow> confined r (f x)"
  shows "confined r (await m f)"
proof -
  have "acts_only_on r w (snd (await m f w))" for w
  proof (cases "m w")
    case (Pair res w')
    with assms(1) have a: "acts_only_on r w w'"
      by (metis confined_def snd_conv)
    show ?thesis
    proof (cases res)
      case (Inl e)
      with Pair a show ?thesis by (simp add: await_def)
    next
      case (Inr x)
      with Pair assms(2) have "confined r (f x)"
        by simp
      then have "acts_only_on r w' (snd (f x w'))"
        by (simp add: confined_def)
      with a have "acts_only_on r w (snd (f x w'))"
        by (rule acts_trans)
      with Pair Inr show ?thesis by (simp add: await_def)
    qed
  qed
  then show ?thesis by (simp add: confined_def)
qed

lemma confined_memberList:
  assumes "h_class this = WechatifiedRoomInvitation r"
  shows "confined r (memberList this)"
proof -
  have loads: "(\<lambda>c. case wechaty this of Inl e \<Rightarrow> reject e | Inr r \<Rightarrow> Contact_load r c)
                 = Contact_load r"
    by (simp add: wechaty_bound [OF assms])
  have waits: "confined r (await (Promise_all (map ready cs)) (\<lambda>_. resolve cs))"
    if "map_sync (Contact_load r) ids w = (Inr cs, w')" for ids w cs w'
  proof (intro confined_await confined_resolve confined_readies)
    fix c assume "c \<in> set cs"
    with that show "\<exists>i. c = Contact r i"
      by (rule map_sync_contacts)
  qed
  have rest: "confined r
      (await (map_sync (Contact_load r) ids)
         (\<lambda>contactList. await (Promise_all (map ready contactList)) (\<lambda>_. resolve contactList)))"
    for ids
    by (rule confined_await_on) (simp_all add: confined_map_sync confined_Contact_load waits)
  show ?thesis
    unfolding memberList_def loads Let_def
    unfolding wechaty_bound [OF assms]
    by (rule confined_await, rule confined_log, rule confined_await, rule confined_fetch,
        rule rest)
qed

lemma inviter_result:
  assumes "h_class this = WechatifiedRoomInvitation r" and "inviter this w = (Inr c, w')"
  shows "\<exists>i. c = Contact r i"
  using assms
  by (auto simp add: inviter_def await_def log_def wechaty_bound Contact_load_def
        split: prod.splits sum.splits)

lemma confined_accept:
  assumes "h_class this = WechatifiedRoomInvitation r"
  shows "confined r (accept this)"
proof -
  have tail: "confined r
      (await (topic this) (\<lambda>topic.
         try_catch
           (await (ready c) (\<lambda>_.
            await (log Verbose ''RoomInvitation'' ''accept() with room(%s) & inviter(%s) ready()''
                     [topic, contact_id c]) (\<lambda>_.
              resolve ())))
           (\<lambda>e. log Warn ''RoomInvitation'' ''accept() inviter(%s) is not ready because of %s''
                   [contact_id c, message_or_error e])))"
    if "inviter this w = (Inr c, w')" for w c w'
  proof -
    from inviter_result [OF assms that] obtain i where c: "c = Contact r i" ..
    show ?thesis
      unfolding c
      by (intro confined_await confined_try_catch confined_topic [OF assms] confined_ready
            confined_log confined_resolve)
  qed
  show ?thesis
    unfolding accept_def wechaty_bound [OF assms]
    by (rule confined_await, rule confined_log, rule confined_await, rule confined_accept_call,
        rule confined_await_on, rule confined_inviter [OF assms], erule tail)
qed

lemma confined_constructor: "confined r (constructor C i)"
  unfolding constructor_def
  by (intro confined_await confined_log)
     (auto simp add: reject_def confined_def acts_refl split: sum.splits)

lemma constructor_class:
  assumes "constructor C i w = (Inr h, w')"
  shows "h_class h = C"
  using assms
  by (auto simp add: constructor_def await_def log_def reject_def
        split: if_splits sum.splits)

lemma confined_fromJSON: "confined r (fromJSON (WechatifiedRoomInvitation r) input)"
proof -
  have l: "confined r (\<lambda>w. log l m fmt (g w) w)" for l m fmt g
    by (simp add: confined_def log_def acts_event)
  have d: "confined r (case input of Text s \<Rightarrow> (\<lambda>w. (JSON_parse w s, w)) | Object p \<Rightarrow> resolve p)"
    by (cases input) (simp_all add: confined_pure confined_resolve)
  have c: "confined r (case wechaty_static (WechatifiedRoomInvitation r) of
                         Inl e \<Rightarrow> reject e
                       | Inr r \<Rightarrow> load (wechaty_RoomInvitation r) i)" for i
    by (simp add: load_def confined_constructor)
  show ?thesis
    unfolding fromJSON_def
    by (rule confined_await, rule l, rule confined_await, rule d, rule confined_await,
        simp add: confined_store, rule c)
qed

lemma fromJSON_class:
  assumes "fromJSON (WechatifiedRoomInvitation r) input w = (Inr h, w')"
  shows "h_class h = WechatifiedRoomInvitation r"
proof -
  from assms obtain k v where "constructor (WechatifiedRoomInvitation r) k v = (Inr h, w')"
    by (auto simp add: fromJSON_def await_def load_def wechaty_RoomInvitation_def
          wechatifyRoomInvitation_def
          split: prod.splits sum.splits)
  then show ?thesis by (rule constructor_class)
qed

lemma on_handle_invariant:
  assumes "\<forall>h \<in> set (snd s). h_class h = WechatifiedRoomInvitation r"
    and "\<And>h. h_class h = WechatifiedRoomInvitation r \<Longrightarrow> confined r (f h)"
  shows "snd (on_handle f n s) = snd s \<and> acts_only_on r (fst s) (fst (on_handle f n s))"
proof (cases "n < length (snd s)")
  case True
  then have "h_class (snd s ! n) = WechatifiedRoomInvitation r"
    using assms(1) by simp
  then have "confined r (f (snd s ! n))"
    by (rule assms(2))
  then have "acts_only_on r (fst s) (snd (f (snd s ! n) (fst s)))"
    by (simp add: confined_def)
  with True show ?thesis
    by (simp add: on_handle_def)
next
  case False
  then show ?thesis
    by (simp add: on_handle_def acts_refl)
qed

lemma obtain_handle_invariant:
  assumes "\<forall>h \<in> set (snd s). h_class h = WechatifiedRoomInvitation r"
    and "confined r m"
    and "\<And>w h w'. m w = (Inr h, w') \<Longrightarrow> h_class h = WechatifiedRoomInvitation r"
  shows "(\<forall>h \<in> set (snd (obtain_handle m s)). h_class h = WechatifiedRoomInvitation r)
       \<and> acts_only_on r (fst s) (fst (obtain_handle m s))
       \<and> (\<exists>new. snd (obtain_handle m s) = snd s @ new)"
proof (cases "m (fst s)")
  case (Pair res w')
  with assms(2) have a: "acts_only_on r (fst s) w'"
    by (metis confined_def snd_conv)
  show ?thesis
  proof (cases res)
    case (Inl e)
    with Pair a assms(1) show ?thesis
      by (simp add: obtain_handle_def)
  next
    case (Inr h)
    with Pair assms(3) have "h_class h = WechatifiedRoomInvitation r"
      by simp
    with Pair Inr a assms(1) show ?thesis
      by (simp add: obtain_handle_def)
  qed
qed

lemma perform_invariant:
  assumes "\<forall>h \<in> set (snd s). h_class h = WechatifiedRoomInvitation r"
  shows "(\<forall>h \<in> set (snd (perform (WechatifiedRoomInvitation r) op s)).
            h_class h = WechatifiedRoomInvitation r)
       \<and> acts_only_on r (fst s) (fst (perform (WechatifiedRoomInvitation r) op s))
       \<and> (\<exists>new. snd (perform (WechatifiedRoomInvitation r) op s) = snd s @ new)"
proof (cases op)
  case (Do_load i)
  show ?thesis
    unfolding Do_load perform.simps
    by (rule obtain_handle_invariant [OF assms])
       (auto simp add: load_def confined_constructor dest: constructor_class)
next
  case (Do_fromJSON input)
  show ?thesis
    unfolding Do_fromJSON perform.simps
    by (rule obtain_handle_invariant [OF assms])
       (auto simp add: confined_fromJSON dest: fromJSON_class)
next
  case (Do_accept n)
  with on_handle_invariant [OF assms, of accept n] assms show ?thesis
    by (simp add: confined_accept)
next
  case (Do_inviter n)
  with on_handle_invariant [OF assms, of inviter n] assms show ?thesis
    by (simp add: confined_inviter)
next
  case (Do_topic n)
  with on_handle_invariant [OF assms, of topic n] assms show ?thesis
    by (simp add: confined_topic)
next
  case (Do_memberCount n)
  with on_handle_invariant [OF assms, of memberCount n] assms show ?thesis
    by (simp add: confined_memberCount)
next
  case (Do_memberList n)
  with on_handle_invariant [OF assms, of memberList n] assms show ?thesis
    by (simp add: confined_memberList)
next
  case (Do_date n)
  with on_handle_invariant [OF assms, of date n] assms show ?thesis
    by (simp add: confined_date)
next
  case (Do_age n)
  with on_handle_invariant [OF assms, of age n] assms show ?thesis
    by (simp add: confined_age)
next
  case (Do_toJSON n)
  with on_handle_invariant [OF assms, of toJSON n] assms show ?thesis
    by (simp add: confined_toJSON)
next
  case (Do_toStringAsync n)
  with on_handle_invariant [OF assms, of toStringAsync n] assms show ?thesis
    by (simp add: confined_toStringAsync)
qed

lemma run_invariant:
  assumes "\<forall>h \<in> set (snd s). h_class h = WechatifiedRoomInvitation r"
  shows "(\<forall>h \<in> set (snd (run (WechatifiedRoomInvitation r) ops s)).
            h_class h = WechatifiedRoomInvitation r)
       \<and> acts_only_on r (fst s) (fst (run (WechatifiedRoomInvitation r) ops s))
       \<and> (\<exists>new. snd (run (WechatifiedRoomInvitation r) ops s) = snd s @ new)"
  using assms
proof (induction ops arbitrary: s)
  case Nil
  then show ?case by (simp add: run_def acts_refl)
next
  case (Cons op ops)
  let ?s1 = "perform (WechatifiedRoomInvitation r) op s"
  from perform_invariant [OF Cons.prems, of op]
  have h1: "\<forall>h \<in> set (snd ?s1). h_class h = WechatifiedRoomInvitation r"
    and a1: "acts_only_on r (fst s) (fst ?s1)"
    and n1: "\<exists>new. snd ?s1 = snd s @ new"
    by simp_all
  from Cons.IH [OF h1]
  have h2: "\<forall>h \<in> set (snd (run (WechatifiedRoomInvitation r) ops ?s1)).
              h_class h = WechatifiedRoomInvitation r"
    and a2: "acts_only_on r (fst ?s1) (fst (run (WechatifiedRoomInvitation r) ops ?s1))"
    and n2: "\<exists>new. snd (run (WechatifiedRoomInvitation r) ops ?s1) = snd ?s1 @ new"
    by simp_all
  from n1 n2 have n: "\<exists>new. snd (run (WechatifiedRoomInvitation r) ops ?s1) = snd s @ new"
    by auto
  have "run (WechatifiedRoomInvitation r) (op # ops) s = run (WechatifiedRoomInvitation r) ops ?s1"
    by (simp add: run_def)
  with h2 acts_trans [OF a1 a2] n show ?case
    by simp
qed

section \<open>Loading a handle\<close>

text \<open>
  C5. For every id, on a class specialized to a context that has a puppet, \<open>load\<close>
  returns a handle whose id is the argument, and all it leaves behind is the
  constructor's line on the logging channel: no call reaches the puppet, and the
  contexts are as they were.
\<close>

theorem load_preserves_id:
  assumes "puppet (heap w r) \<noteq> None"
  shows "load (wechatifyRoomInvitation r) i w =
           (Inr \<lparr>h_class = wechatifyRoomInvitation r, h_id = i\<rparr>,
            w\<lparr>trace := trace w @ [Log Verbose ''RoomInvitation'' ''constructor(id=%s)'' [i]]\<rparr>)
         \<and> h_id (projr (fst (load (wechatifyRoomInvitation r) i w))) = i"
  using assms by (simp add: load_def wechatifyRoomInvitation_def constructor_run)

theorem load_preserves_id_witness:
  "puppet (heap mock_world 0) \<noteq> None
   \<and> load (wechatifyRoomInvitation 0) ''i1'' mock_world =
       (Inr \<lparr>h_class = wechatifyRoomInvitation 0, h_id = ''i1''\<rparr>,
        mock_world\<lparr>trace := trace mock_world
                      @ [Log Verbose ''RoomInvitation'' ''constructor(id=%s)'' [''i1'']]\<rparr>)
   \<and> h_id (projr (fst (load (wechatifyRoomInvitation 0) ''i1'' mock_world))) = ''i1''"
proof -
  have h: "puppet (heap mock_world 0) \<noteq> None"
    by (simp add: mock_heap_0)
  from load_preserves_id [OF h, of "''i1''"] h show ?thesis
    by simp
qed

section \<open>Defaults for missing fields\<close>

text \<open>
  C10. When the fetched payload has no topic, or an empty one, \<open>topic\<close> resolves to
  the empty string; when it has no member count, or the count zero, \<open>memberCount\<close>
  resolves to 0; when it has no member id list, \<open>memberList\<close> resolves to the empty
  list. None of them fails.
\<close>

theorem accessor_defaults:
  assumes "h_class this = WechatifiedRoomInvitation r" and "puppet (heap w r) = Some p"
    and "payloadOf p (h_id this) = Inr pl"
  shows "(p_topic pl = None \<or> p_topic pl = Some [] \<longrightarrow> fst (topic this w) = Inr [])
       \<and> (p_memberCount pl = None \<or> p_memberCount pl = Some 0
            \<longrightarrow> fst (memberCount this w) = Inr 0)
       \<and> (p_memberIdList pl = None \<longrightarrow> fst (memberList this w) = Inr [])"
proof -
  have t: "p_topic pl = None \<or> p_topic pl = Some [] \<longrightarrow> fst (topic this w) = Inr []"
    using assms by (auto simp add: topic_run truthy_string_def)
  have c: "p_memberCount pl = None \<or> p_memberCount pl = Some 0
             \<longrightarrow> fst (memberCount this w) = Inr 0"
    using assms by (auto simp add: memberCount_run truthy_number_def)
  have l: "p_memberIdList pl = None \<longrightarrow> fst (memberList this w) = Inr []"
    using memberList_run [OF assms refl] by simp
  from t c l show ?thesis by blast
qed

theorem accessor_defaults_witness:
  "h_class (mock_invitation ''i2'') = WechatifiedRoomInvitation 0
   \<and> puppet (heap mock_world 0) = Some mock_puppet
   \<and> payloadOf mock_puppet (h_id (mock_invitation ''i2'')) = Inr bare_payload
   \<and> p_topic bare_payload = None
   \<and> p_memberCount bare_payload = None
   \<and> p_memberIdList bare_payload = None
   \<and> fst (topic (mock_invitation ''i2'') mock_world) = Inr []
   \<and> fst (memberCount (mock_invitation ''i2'') mock_world) = Inr 0
   \<and> fst (memberList (mock_invitation ''i2'') mock_world) = Inr []"
proof -
  have h1: "h_class (mock_invitation ''i2'') = WechatifiedRoomInvitation 0"
    by (rule mock_class)
  have h2: "puppet (heap mock_world 0) = Some mock_puppet"
    by (simp add: mock_heap_0)
  have h3: "payloadOf mock_puppet (h_id (mock_invitation ''i2'')) = Inr bare_payload"
    by (simp add: mock_id mock_puppet_def)
  have h4: "p_topic bare_payload = None \<and> p_memberCount bare_payload = None
            \<and> p_memberIdList bare_payload = None"
    by (simp add: bare_payload_def)
  from accessor_defaults [OF h1 h2 h3] h1 h2 h3 h4 show ?thesis
    by simp
qed

section \<open>The age of an invitation\<close>

text \<open>
  C6, as the code has it. For every stored payload whose timestamp has a date, and
  every reading \<open>now\<close> of the host clock, \<open>age\<close> resolves to the floor of the
  difference, in seconds, between \<open>now\<close> and that date: the greatest whole number of
  seconds not above the difference. When the difference is not negative this is the
  difference with its fraction of a second cut off.
\<close>

theorem age_is_floor:
  assumes "h_class this = WechatifiedRoomInvitation r" and "puppet (heap w r) = Some p"
    and "payloadOf p (h_id this) = Inr pl"
    and "timestampToDate w (p_timestamp pl) = Date ms"
    and "d = Date_now w - ms"
  shows "fst (age this w) = Inr (Number (d div 1000))
       \<and> 1000 * (d div 1000) \<le> d \<and> d < 1000 * (d div 1000) + 1000
       \<and> (0 \<le> d \<longrightarrow> d div 1000 = truncated_seconds d)"
proof -
  have a: "fst (age this w) = Inr (Number (d div 1000))"
    using assms by (simp add: age_run)
  have b: "1000 * (d div 1000) \<le> d \<and> d < 1000 * (d div 1000) + 1000"
    by presburger
  have c: "0 \<le> d \<longrightarrow> d div 1000 = truncated_seconds d"
    by (cases "d = 0") (auto simp add: truncated_seconds_def)
  from a b c show ?thesis by blast
qed

theorem age_is_floor_witness:
  "h_class (mock_invitation ''i1'') = WechatifiedRoomInvitation 0
   \<and> puppet (heap mock_world 0) = Some mock_puppet
   \<and> payloadOf mock_puppet (h_id (mock_invitation ''i1'')) = Inr scenario_payload
   \<and> timestampToDate mock_world (p_timestamp scenario_payload) = Date 1234567890000
   \<and> (14500 :: int) = Date_now mock_world - 1234567890000
   \<and> (0 :: int) \<le> 14500
   \<and> fst (age (mock_invitation ''i1'') mock_world) = Inr (Number 14)
   \<and> truncated_seconds 14500 = 14"
proof -
  have h1: "h_class (mock_invitation ''i1'') = WechatifiedRoomInvitation 0"
    by (rule mock_class)
  have h2: "puppet (heap mock_world 0) = Some mock_puppet"
    by (simp add: mock_heap_0)
  have h3: "payloadOf mock_puppet (h_id (mock_invitation ''i1'')) = Inr scenario_payload"
    by (simp add: mock_id mock_puppet_def)
  have h4: "timestampToDate mock_world (p_timestamp scenario_payload) = Date 1234567890000"
    by (simp add: mock_world_def scenario_payload_def)
  have h5: "(14500 :: int) = Date_now mock_world - 1234567890000"
    by (simp add: mock_world_def)
  from age_is_floor [OF h1 h2 h3 h4 h5] h1 h2 h3 h4 h5 show ?thesis
    by simp
qed

text \<open>
  C6 as the specification words it fails on an invitation stamped after the reading
  of the clock: the difference is minus half a second, cutting the fraction off
  gives 0, and \<open>age\<close> resolves to \<open>-1\<close>.
\<close>

theorem age_truncation_counterexample:
  "fst (age (mock_invitation ''i5'') mock_world) = Inr (Number (- 1))
   \<and> timestampToDate mock_world (p_timestamp early_payload) = Date 1234567905000
   \<and> Date_now mock_world - 1234567905000 = - 500
   \<and> truncated_seconds (- 500) = 0
   \<and> fst (age (mock_invitation ''i5'') mock_world)
       \<noteq> Inr (Number (truncated_seconds (Date_now mock_world - 1234567905000)))"
proof -
  have h1: "h_class (mock_invitation ''i5'') = WechatifiedRoomInvitation 0"
    by (rule mock_class)
  have h2: "puppet (heap mock_world 0) = Some mock_puppet"
    by (simp add: mock_heap_0)
  have h3: "payloadOf mock_puppet (h_id (mock_invitation ''i5'')) = Inr early_payload"
    by (simp add: mock_id mock_puppet_def)
  have e: "timestampToDate mock_world (p_timestamp early_payload) = Date 1234567905000"
    by (simp add: mock_world_def early_payload_def)
  have d: "Date_now mock_world - 1234567905000 = - 500"
    by (simp add: mock_world_def)
  have a: "fst (age (mock_invitation ''i5'') mock_world) = Inr (Number (- 1))"
    by (simp add: age_run [OF h1 h2 h3] e d)
  have t: "truncated_seconds (- 500) = 0"
    by (simp add: truncated_seconds_def)
  from a e d t show ?thesis by simp
qed

text \<open>
  C7, as the code has it. When \<open>age\<close> has resolved once to a number (the payload's
  timestamp has a date), and is called again on the same invitation later (in the
  world the first call left, with more on the trace perhaps, and the host clock at
  \<open>t\<close>, not earlier than it was), the second call resolves to a number too, and
  that number is \<^verbatim>\<open>>=\<close> the first.
\<close>

theorem age_monotone:
  assumes "age this w = (Inr (Number a1), w1)" and "Date_now w \<le> t"
  shows "\<exists>a2 w2. age this (w1\<lparr>Date_now := t, trace := tr\<rparr>) = (Inr (Number a2), w2)
                 \<and> number_ge (Number a2) (Number a1)"
proof -
  from assms(1) obtain r p pl where
    b: "h_class this = WechatifiedRoomInvitation r" "puppet (heap w r) = Some p"
       "payloadOf p (h_id this) = Inr pl"
    by (cases "h_class this")
       (auto simp add: age_def date_def await_def log_def wechaty_def with_puppet_def
          puppet_roomInvitationPayload_def
          split: option.splits sum.splits)
  from assms(1) have
    n: "Math_floor_divide (number_minus (Number (Date_now w))
          (getTime (timestampToDate w (p_timestamp pl)))) 1000 = Number a1"
    and w1: "w1 = w\<lparr>trace := trace w @ [Log Verbose ''RoomInvitation'' ''date()'' [],
                                        PayloadGet r (h_id this)]\<rparr>"
    by (simp_all add: age_run [OF b])
  from n obtain ms where
    v: "timestampToDate w (p_timestamp pl) = Date ms"
    by (cases "timestampToDate w (p_timestamp pl)") simp_all
  from n v have r1: "a1 = (Date_now w - ms) div 1000"
    by simp
  have p2: "puppet (heap (w1\<lparr>Date_now := t, trace := tr\<rparr>) r) = Some p"
    using b(2) w1 by simp
  have "fst (age this (w1\<lparr>Date_now := t, trace := tr\<rparr>)) = Inr (Number ((t - ms) div 1000))"
    using age_run [OF b(1) p2 b(3)] by (simp add: w1 v)
  moreover have "a1 \<le> (t - ms) div 1000"
    unfolding r1 using assms(2) by (intro zdiv_mono1) simp_all
  ultimately show ?thesis
    by (metis number_ge.simps(1) prod.collapse)
qed

theorem age_monotone_witness:
  "age (mock_invitation ''i1'') mock_world =
     (Inr (Number 14), mock_world\<lparr>trace := [Log Verbose ''RoomInvitation'' ''date()'' [],
                                             PayloadGet 0 ''i1'']\<rparr>)
   \<and> Date_now mock_world \<le> 1234567905500
   \<and> (\<exists>a2 w2. age (mock_invitation ''i1'')
                 (mock_world\<lparr>Date_now := 1234567905500,
                             trace := [Log Verbose ''RoomInvitation'' ''date()'' [],
                                       PayloadGet 0 ''i1'']\<rparr>) = (Inr (Number a2), w2)
              \<and> number_ge (Number a2) (Number 14))"
proof -
  have h1: "h_class (mock_invitation ''i1'') = WechatifiedRoomInvitation 0"
    by (rule mock_class)
  have h2: "puppet (heap mock_world 0) = Some mock_puppet"
    by (simp add: mock_heap_0)
  have h3: "payloadOf mock_puppet (h_id (mock_invitation ''i1'')) = Inr scenario_payload"
    by (simp add: mock_id mock_puppet_def)
  have a: "age (mock_invitation ''i1'') mock_world =
     (Inr (Number 14), mock_world\<lparr>trace := [Log Verbose ''RoomInvitation'' ''date()'' [],
                                             PayloadGet 0 ''i1'']\<rparr>)"
    by (simp add: age_run [OF h1 h2 h3] mock_id)
       (simp add: mock_world_def scenario_payload_def)
  have c: "Date_now mock_world \<le> 1234567905500"
    by (simp add: mock_world_def)
  from age_monotone [OF a c, of "[Log Verbose ''RoomInvitation'' ''date()'' [],
                                   PayloadGet 0 ''i1'']"] a c
  show ?thesis
    by simp
qed

text \<open>
  C7 as the specification words it fails on a stored payload without a timestamp, on
  a host where such a timestamp has no date: \<open>age\<close> resolves to \<^verbatim>\<open>NaN\<close>, it does
  so again a second later with the store unchanged, and \<^verbatim>\<open>NaN >= NaN\<close> is false.
\<close>

theorem age_not_a_number_counterexample:
  "payloadOf mock_puppet ''i2'' = Inr bare_payload
   \<and> p_timestamp bare_payload = None
   \<and> age (mock_invitation ''i2'') mock_world =
       (Inr NaN, mock_world\<lparr>trace := [Log Verbose ''RoomInvitation'' ''date()'' [],
                                       PayloadGet 0 ''i2'']\<rparr>)
   \<and> Date_now mock_world \<le> 1234567905500
   \<and> fst (age (mock_invitation ''i2'')
            (mock_world\<lparr>Date_now := 1234567905500,
                        trace := [Log Verbose ''RoomInvitation'' ''date()'' [],
                                  PayloadGet 0 ''i2'']\<rparr>)) = Inr NaN
   \<and> \<not> number_ge NaN NaN"
proof -
  have h1: "h_class (mock_invitation ''i2'') = WechatifiedRoomInvitation 0"
    by (rule mock_class)
  have h2: "puppet (heap mock_world 0) = Some mock_puppet"
    by (simp add: mock_heap_0)
  have h3: "payloadOf mock_puppet (h_id (mock_invitation ''i2'')) = Inr bare_payload"
    by (simp add: mock_id mock_puppet_def)
  have ts: "p_timestamp bare_payload = None"
    by (simp add: bare_payload_def)
  have inv: "timestampToDate mock_world None = Invalid_Date"
    by (simp add: mock_world_def)
  have a: "age (mock_invitation ''i2'') mock_world =
       (Inr NaN, mock_world\<lparr>trace := [Log Verbose ''RoomInvitation'' ''date()'' [],
                                       PayloadGet 0 ''i2'']\<rparr>)"
    by (simp add: age_run [OF h1 h2 h3] mock_id ts inv) (simp add: mock_world_def)
  have c: "Date_now mock_world \<le> 1234567905500"
    by (simp add: mock_world_def)
  have p2: "puppet (heap (mock_world\<lparr>Date_now := 1234567905500,
                        trace := [Log Verbose ''RoomInvitation'' ''date()'' [],
                                  PayloadGet 0 ''i2'']\<rparr>) 0) = Some mock_puppet"
    using h2 by simp
  have b: "fst (age (mock_invitation ''i2'')
            (mock_world\<lparr>Date_now := 1234567905500,
                        trace := [Log Verbose ''RoomInvitation'' ''date()'' [],
                                  PayloadGet 0 ''i2'']\<rparr>)) = Inr NaN"
    by (simp add: age_run [OF h1 p2 h3] ts inv)
  from h3 ts a c b show ?thesis
    by (simp add: mock_id)
qed

section \<open>Accepting an invitation\<close>

text \<open>
  C1. When the puppet's \<open>roomInvitationAccept\<close> succeeds for the invitation and the
  \<open>ready()\<close> wait on its inviter rejects with \<open>e\<close>, \<open>accept\<close> resolves: the
  rejection is caught, a warning naming the inviter and \<open>e\<close> is the last line on
  the logging channel, and the acceptance sent to the puppet stands in the trace.
  (The wait is reached after the payload has been fetched for the inviter and the
  topic, so the payload is in the store.)
\<close>

theorem accept_swallows_ready_rejection:
  assumes "h_class this = WechatifiedRoomInvitation r" and "puppet (heap w r) = Some p"
    and "acceptFailure p (h_id this) = None"
    and "payloadOf p (h_id this) = Inr pl"
    and "contactReady (heap w r) (p_inviterId pl) = Some e"
  shows "accept this w =
           (Inr (),
            w\<lparr>trace := trace w
                  @ [Log Verbose ''RoomInvitation'' ''accept()'' [],
                     Accept r (h_id this),
                     Log Verbose ''RoomInvitation'' ''inviter()'' [],
                     PayloadGet r (h_id this),
                     ContactLoad r (p_inviterId pl),
                     PayloadGet r (h_id this),
                     ContactReady r (p_inviterId pl) (Some e),
                     Log Warn ''RoomInvitation''
                       ''accept() inviter(%s) is not ready because of %s''
                       [p_inviterId pl, message_or_error e]]\<rparr>)"
  using accept_run [OF assms(1-4)] assms(5) by simp

theorem accept_swallows_ready_rejection_witness:
  "h_class (mock_invitation ''i2'') = WechatifiedRoomInvitation 0
   \<and> puppet (heap mock_world 0) = Some mock_puppet
   \<and> acceptFailure mock_puppet (h_id (mock_invitation ''i2'')) = None
   \<and> payloadOf mock_puppet (h_id (mock_invitation ''i2'')) = Inr bare_payload
   \<and> contactReady (heap mock_world 0) (p_inviterId bare_payload) = Some (Error ''timeout'')
   \<and> accept (mock_invitation ''i2'') mock_world =
       (Inr (),
        mock_world\<lparr>trace :=
          [Log Verbose ''RoomInvitation'' ''accept()'' [],
           Accept 0 ''i2'',
           Log Verbose ''RoomInvitation'' ''inviter()'' [],
           PayloadGet 0 ''i2'',
           ContactLoad 0 ''c9'',
           PayloadGet 0 ''i2'',
           ContactReady 0 ''c9'' (Some (Error ''timeout'')),
           Log Warn ''RoomInvitation'' ''accept() inviter(%s) is not ready because of %s''
             [''c9'', ''timeout'']]\<rparr>)"
proof -
  have h1: "h_class (mock_invitation ''i2'') = WechatifiedRoomInvitation 0"
    by (rule mock_class)
  have h2: "puppet (heap mock_world 0) = Some mock_puppet"
    by (simp add: mock_heap_0)
  have h3: "acceptFailure mock_puppet (h_id (mock_invitation ''i2'')) = None"
    by (simp add: mock_id mock_puppet_def)
  have h4: "payloadOf mock_puppet (h_id (mock_invitation ''i2'')) = Inr bare_payload"
    by (simp add: mock_id mock_puppet_def)
  have h5: "contactReady (heap mock_world 0) (p_inviterId bare_payload) = Some (Error ''timeout'')"
    by (simp add: mock_heap_0 bare_payload_def)
  have t: "trace mock_world = []"
    by (simp add: mock_world_def)
  have i: "p_inviterId bare_payload = ''c9''"
    by (simp add: bare_payload_def)
  from accept_swallows_ready_rejection [OF h1 h2 h3 h4 h5] h1 h2 h3 h4 h5 show ?thesis
    by (simp add: mock_id t i message_or_error_def truthy_string_def)
qed

section \<open>The scenario of the specification\<close>

text \<open>
  C4. With the scenario's payload stored under \<open>''i1''\<close>, \<open>topic\<close> resolves to
  \<open>''T''\<close> and \<open>memberCount\<close> to 3. When the \<open>ready()\<close> waits of the three members
  resolve, \<open>memberList\<close> resolves to exactly three contact handles, loaded from
  \<open>''c1''\<close>, \<open>''c2''\<close>, \<open>''c3''\<close> in this order, and by then the trace holds the
  three loads followed by the three completed waits.
\<close>

theorem scenario_reads:
  assumes "h_class this = WechatifiedRoomInvitation r" and "puppet (heap w r) = Some p"
    and "h_id this = ''i1''"
    and "payloadOf p ''i1'' =
           Inr \<lparr>p_id = ''i1'', p_topic = Some ''T'', p_inviterId = ''c1'',
                p_memberCount = Some 3, p_memberIdList = Some [''c1'', ''c2'', ''c3''],
                p_timestamp = Some 1234567890\<rparr>"
    and "contactReady (heap w r) ''c1'' = None"
    and "contactReady (heap w r) ''c2'' = None"
    and "contactReady (heap w r) ''c3'' = None"
  shows "fst (topic this w) = Inr ''T''
       \<and> fst (memberCount this w) = Inr 3
       \<and> memberList this w =
           (Inr [Contact r ''c1'', Contact r ''c2'', Contact r ''c3''],
            w\<lparr>trace := trace w
                  @ [Log Verbose ''RoomInvitation'' ''roomMemberList()'' [],
                     PayloadGet r ''i1'',
                     ContactLoad r ''c1'', ContactLoad r ''c2'', ContactLoad r ''c3'',
                     ContactReady r ''c1'' None, ContactReady r ''c2'' None,
                     ContactReady r ''c3'' None]\<rparr>)"
proof -
  let ?pl = "\<lparr>p_id = ''i1'', p_topic = Some ''T'', p_inviterId = ''c1'',
                p_memberCount = Some 3, p_memberIdList = Some [''c1'', ''c2'', ''c3''],
                p_timestamp = Some 1234567890\<rparr>"
  have f: "payloadOf p (h_id this) = Inr ?pl"
    using assms(3,4) by simp
  have t: "fst (topic this w) = Inr ''T''"
    by (simp add: topic_run [OF assms(1,2) f] truthy_string_def)
  have c: "fst (memberCount this w) = Inr 3"
    by (simp add: memberCount_run [OF assms(1,2) f] truthy_number_def)
  have ids: "[''c1'', ''c2'', ''c3''] = or_default truthy_array (p_memberIdList ?pl) []"
    by (simp add: truthy_array_def)
  have l: "memberList this w =
           (Inr [Contact r ''c1'', Contact r ''c2'', Contact r ''c3''],
            w\<lparr>trace := trace w
                  @ [Log Verbose ''RoomInvitation'' ''roomMemberList()'' [],
                     PayloadGet r ''i1'',
                     ContactLoad r ''c1'', ContactLoad r ''c2'', ContactLoad r ''c3'',
                     ContactReady r ''c1'' None, ContactReady r ''c2'' None,
                     ContactReady r ''c3'' None]\<rparr>)"
    using memberList_run [OF assms(1,2) f ids] assms(3,5,6,7) by simp
  from t c l show ?thesis by blast
qed

theorem scenario_reads_witness:
  "h_class (mock_invitation ''i1'') = WechatifiedRoomInvitation 0
   \<and> puppet (heap mock_world 0) = Some mock_puppet
   \<and> h_id (mock_invitation ''i1'') = ''i1''
   \<and> payloadOf mock_puppet ''i1'' =
           Inr \<lparr>p_id = ''i1'', p_topic = Some ''T'', p_inviterId = ''c1'',
                p_memberCount = Some 3, p_memberIdList = Some [''c1'', ''c2'', ''c3''],
                p_timestamp = Some 1234567890\<rparr>
   \<and> contactReady (heap mock_world 0) ''c1'' = None
   \<and> contactReady (heap mock_world 0) ''c2'' = None
   \<and> contactReady (heap mock_world 0) ''c3'' = None
   \<and> fst (topic (mock_invitation ''i1'') mock_world) = Inr ''T''
   \<and> fst (memberCount (mock_invitation ''i1'') mock_world) = Inr 3
   \<and> fst (memberList (mock_invitation ''i1'') mock_world) =
       Inr [Contact 0 ''c1'', Contact 0 ''c2'', Contact 0 ''c3'']"
proof -
  have h1: "h_class (mock_invitation ''i1'') = WechatifiedRoomInvitation 0"
    by (rule mock_class)
  have h2: "puppet (heap mock_world 0) = Some mock_puppet"
    by (simp add: mock_heap_0)
  have h3: "h_id (mock_invitation ''i1'') = ''i1''"
    by (rule mock_id)
  have h4: "payloadOf mock_puppet ''i1'' =
           Inr \<lparr>p_id = ''i1'', p_topic = Some ''T'', p_inviterId = ''c1'',
                p_memberCount = Some 3, p_memberIdList = Some [''c1'', ''c2'', ''c3''],
                p_timestamp = Some 1234567890\<rparr>"
    by (simp add: mock_puppet_def scenario_payload_def)
  have h5: "contactReady (heap mock_world 0) ''c1'' = None"
    by (simp add: mock_heap_0)
  have h6: "contactReady (heap mock_world 0) ''c2'' = None"
    by (simp add: mock_heap_0)
  have h7: "contactReady (heap mock_world 0) ''c3'' = None"
    by (simp add: mock_heap_0)
  from scenario_reads [OF h1 h2 h3 h4 h5 h6 h7] h1 h2 h3 h4 h5 h6 h7 show ?thesis
    by simp
qed

section \<open>Restoring an invitation from JSON\<close>

text \<open>
  C3. \<open>fromJSON\<close> works in this order. A text is decoded first: when decoding fails
  with \<open>e\<close>, \<open>fromJSON\<close> rejects with \<open>e\<close> and has done nothing but write its log
  line, so no call has reached the puppet. Otherwise (a text \<open>s'\<close> that decodes to
  \<open>pl\<close>, or \<open>pl\<close> given as an object) the payload is written through to the
  puppet's store, and then the handle is constructed: the trace holds the store call
  before the constructor's line, the store answers \<open>pl\<close> under \<open>pl\<close>'s id, and the
  handle returned carries that id. When the store call rejects, no handle is
  constructed.
\<close>

theorem fromJSON_steps:
  assumes "puppet (heap w r) = Some p"
  shows "(JSON_parse w s = Inl e \<longrightarrow>
            fromJSON this (Text s) w =
              (Inl e,
               w\<lparr>trace := trace w @ [Log Verbose ''RoomInvitation'' ''fromJSON(%s)'' [s]]\<rparr>))
       \<and> (JSON_parse w s' = Inr pl \<and> storeFailure p (p_id pl) pl = None \<longrightarrow>
            fromJSON (wechatifyRoomInvitation r) (Text s') w =
              (Inr \<lparr>h_class = wechatifyRoomInvitation r, h_id = p_id pl\<rparr>,
               w\<lparr>heap := (heap w)
                    (r := (heap w r)\<lparr>puppet :=
                            Some (p\<lparr>payloadOf := (payloadOf p)(p_id pl := Inr pl)\<rparr>)\<rparr>),
                 trace := trace w
                    @ [Log Verbose ''RoomInvitation'' ''fromJSON(%s)'' [s'],
                       PayloadSet r (p_id pl) pl,
                       Log Verbose ''RoomInvitation'' ''constructor(id=%s)'' [p_id pl]]\<rparr>))
       \<and> (storeFailure p (p_id pl) pl = None \<longrightarrow>
            fromJSON (wechatifyRoomInvitation r) (Object pl) w =
              (Inr \<lparr>h_class = wechatifyRoomInvitation r, h_id = p_id pl\<rparr>,
               w\<lparr>heap := (heap w)
                    (r := (heap w r)\<lparr>puppet :=
                            Some (p\<lparr>payloadOf := (payloadOf p)(p_id pl := Inr pl)\<rparr>)\<rparr>),
                 trace := trace w
                    @ [Log Verbose ''RoomInvitation'' ''fromJSON(%s)'' [JSON_stringify w pl],
                       PayloadSet r (p_id pl) pl,
                       Log Verbose ''RoomInvitation'' ''constructor(id=%s)'' [p_id pl]]\<rparr>))
       \<and> (storeFailure p (p_id pl') pl' = Some e' \<longrightarrow>
            fromJSON (wechatifyRoomInvitation r) (Object pl') w =
              (Inl e',
               w\<lparr>trace := trace w
                    @ [Log Verbose ''RoomInvitation'' ''fromJSON(%s)'' [JSON_stringify w pl'],
                       PayloadSet r (p_id pl') pl']\<rparr>))"
proof -
  have a: "JSON_parse w s = Inl e \<longrightarrow>
            fromJSON this (Text s) w =
              (Inl e,
               w\<lparr>trace := trace w @ [Log Verbose ''RoomInvitation'' ''fromJSON(%s)'' [s]]\<rparr>)"
    by (simp add: fromJSON_parse_fails)
  have b: "JSON_parse w s' = Inr pl \<and> storeFailure p (p_id pl) pl = None \<longrightarrow>
            fromJSON (wechatifyRoomInvitation r) (Text s') w =
              (Inr \<lparr>h_class = wechatifyRoomInvitation r, h_id = p_id pl\<rparr>,
               w\<lparr>heap := (heap w)
                    (r := (heap w r)\<lparr>puppet :=
                            Some (p\<lparr>payloadOf := (payloadOf p)(p_id pl := Inr pl)\<rparr>)\<rparr>),
                 trace := trace w
                    @ [Log Verbose ''RoomInvitation'' ''fromJSON(%s)'' [s'],
                       PayloadSet r (p_id pl) pl,
                       Log Verbose ''RoomInvitation'' ''constructor(id=%s)'' [p_id pl]]\<rparr>)"
    using fromJSON_run [OF assms, of "Text s'" pl]
    by (simp add: wechatifyRoomInvitation_def)
  have c: "storeFailure p (p_id pl) pl = None \<longrightarrow>
            fromJSON (wechatifyRoomInvitation r) (Object pl) w =
              (Inr \<lparr>h_class = wechatifyRoomInvitation r, h_id = p_id pl\<rparr>,
               w\<lparr>heap := (heap w)
                    (r := (heap w r)\<lparr>puppet :=
                            Some (p\<lparr>payloadOf := (payloadOf p)(p_id pl := Inr pl)\<rparr>)\<rparr>),
                 trace := trace w
                    @ [Log Verbose ''RoomInvitation'' ''fromJSON(%s)'' [JSON_stringify w pl],
                       PayloadSet r (p_id pl) pl,
                       Log Verbose ''RoomInvitation'' ''constructor(id=%s)'' [p_id pl]]\<rparr>)"
    using fromJSON_run [OF assms, of "Object pl" pl]
    by (simp add: wechatifyRoomInvitation_def)
  have d: "storeFailure p (p_id pl') pl' = Some e' \<longrightarrow>
            fromJSON (wechatifyRoomInvitation r) (Object pl') w =
              (Inl e',
               w\<lparr>trace := trace w
                    @ [Log Verbose ''RoomInvitation'' ''fromJSON(%s)'' [JSON_stringify w pl'],
                       PayloadSet r (p_id pl') pl']\<rparr>)"
    using fromJSON_store_fails [OF assms, of "Object pl'" pl' e']
    by (simp add: wechatifyRoomInvitation_def)
  from a b c d show ?thesis by blast
qed

theorem fromJSON_steps_witness:
  "puppet (heap mock_world 0) = Some mock_puppet
   \<and> JSON_parse mock_world ''not json'' = Inl (SyntaxError ''Unexpected token'')
   \<and> JSON_parse mock_world scenario_text = Inr scenario_payload
   \<and> storeFailure mock_puppet (p_id scenario_payload) scenario_payload = None
   \<and> storeFailure mock_puppet (p_id (scenario_payload\<lparr>p_id := ''i3''\<rparr>))
         (scenario_payload\<lparr>p_id := ''i3''\<rparr>) = Some (Error ''store is read-only'')
   \<and> fromJSON (wechatifyRoomInvitation 0) (Text ''not json'') mock_world =
         (Inl (SyntaxError ''Unexpected token''),
          mock_world\<lparr>trace := [Log Verbose ''RoomInvitation'' ''fromJSON(%s)'' [''not json'']]\<rparr>)
   \<and> fst (fromJSON (wechatifyRoomInvitation 0) (Text scenario_text) mock_world) =
         Inr \<lparr>h_class = wechatifyRoomInvitation 0, h_id = ''i1''\<rparr>
   \<and> trace (snd (fromJSON (wechatifyRoomInvitation 0) (Text scenario_text) mock_world)) =
         [Log Verbose ''RoomInvitation'' ''fromJSON(%s)'' [scenario_text],
          PayloadSet 0 ''i1'' scenario_payload,
          Log Verbose ''RoomInvitation'' ''constructor(id=%s)'' [''i1'']]
   \<and> fst (fromJSON (wechatifyRoomInvitation 0) (Object scenario_payload) mock_world) =
         Inr \<lparr>h_class = wechatifyRoomInvitation 0, h_id = ''i1''\<rparr>
   \<and> fst (fromJSON (wechatifyRoomInvitation 0) (Object (scenario_payload\<lparr>p_id := ''i3''\<rparr>))
            mock_world) = Inl (Error ''store is read-only'')"
proof -
  have h: "puppet (heap mock_world 0) = Some mock_puppet"
    by (simp add: mock_heap_0)
  have a: "JSON_parse mock_world ''not json'' = Inl (SyntaxError ''Unexpected token'')"
    by (simp add: mock_world_def scenario_text_def)
  have b: "JSON_parse mock_world scenario_text = Inr scenario_payload"
    by (simp add: mock_world_def)
  have i: "p_id scenario_payload = ''i1''"
    by (simp add: scenario_payload_def)
  have c: "storeFailure mock_puppet (p_id scenario_payload) scenario_payload = None"
    by (simp add: i mock_puppet_def)
  have d: "storeFailure mock_puppet (p_id (scenario_payload\<lparr>p_id := ''i3''\<rparr>))
             (scenario_payload\<lparr>p_id := ''i3''\<rparr>) = Some (Error ''store is read-only'')"
    by (simp add: mock_puppet_def)
  have t: "trace mock_world = []"
    by (simp add: mock_world_def)
  from fromJSON_steps [OF h, where s = "''not json''" and e = "SyntaxError ''Unexpected token''"
      and this = "wechatifyRoomInvitation 0" and s' = scenario_text and pl = scenario_payload
      and pl' = "scenario_payload\<lparr>p_id := ''i3''\<rparr>" and e' = "Error ''store is read-only''"]
    h a b c d
  show ?thesis
    by (simp add: i t)
qed

section \<open>The round trip through JSON\<close>

text \<open>
  C2. Take a handle whose payload \<open>pl\<close> is in the puppet's store, a store that
  accepts \<open>pl\<close> back, and a host whose decoder reads \<open>pl\<close> from what its encoder
  writes for \<open>pl\<close>. Then \<open>toJSON\<close> resolves to that text, \<open>fromJSON\<close> on the text
  resolves to a handle, and in the world this leaves (whatever has been traced since,
  whatever the clock shows) the reads of that handle give the fields of \<open>pl\<close>: the
  topic, the member count, the date of its timestamp, the inviter loaded from its
  inviter id, the members loaded from its member id list, and the same text again.
\<close>

theorem toJSON_fromJSON_round_trip:
  assumes "h_class this = WechatifiedRoomInvitation r" and "puppet (heap w r) = Some p"
    and "payloadOf p (h_id this) = Inr pl"
    and "storeFailure p (p_id pl) pl = None"
    and "JSON_parse w (JSON_stringify w pl) = Inr pl"
  shows "\<exists>w1 that w2.
           toJSON this w = (Inr (JSON_stringify w pl), w1)
         \<and> fromJSON (h_class this) (Text (JSON_stringify w pl)) w1 = (Inr that, w2)
         \<and> h_id that = p_id pl
         \<and> (\<forall>tr now.
               fst (topic that (w2\<lparr>Date_now := now, trace := tr\<rparr>))
                 = Inr (or_default truthy_string (p_topic pl) [])
             \<and> fst (memberCount that (w2\<lparr>Date_now := now, trace := tr\<rparr>))
                 = Inr (or_default truthy_number (p_memberCount pl) 0)
             \<and> fst (date that (w2\<lparr>Date_now := now, trace := tr\<rparr>))
                 = Inr (timestampToDate w (p_timestamp pl))
             \<and> fst (inviter that (w2\<lparr>Date_now := now, trace := tr\<rparr>))
                 = Inr (Contact r (p_inviterId pl))
             \<and> fst (memberList that (w2\<lparr>Date_now := now, trace := tr\<rparr>))
                 = (case first_rejection (contactReady (heap w r))
                           (or_default truthy_array (p_memberIdList pl) []) of
                      Some e \<Rightarrow> Inl e
                    | None \<Rightarrow>
                        Inr (map (Contact r) (or_default truthy_array (p_memberIdList pl) [])))
             \<and> fst (toJSON that (w2\<lparr>Date_now := now, trace := tr\<rparr>))
                 = Inr (JSON_stringify w pl))"
proof -
  define w1 where
    "w1 = w\<lparr>trace := trace w @ [Log Verbose ''RoomInvitation'' ''toJSON()'' [],
                                  PayloadGet r (h_id this)]\<rparr>"
  define that where "that = \<lparr>h_class = WechatifiedRoomInvitation r, h_id = p_id pl\<rparr>"
  define p' where "p' = p\<lparr>payloadOf := (payloadOf p)(p_id pl := Inr pl)\<rparr>"
  define w2 where
    "w2 = w1\<lparr>heap := (heap w1)(r := (heap w1 r)\<lparr>puppet := Some p'\<rparr>),
             trace := trace w1
               @ [Log Verbose ''RoomInvitation'' ''fromJSON(%s)'' [JSON_stringify w pl],
                  PayloadSet r (p_id pl) pl,
                  Log Verbose ''RoomInvitation'' ''constructor(id=%s)'' [p_id pl]]\<rparr>"
  have s1: "toJSON this w = (Inr (JSON_stringify w pl), w1)"
    unfolding w1_def by (rule toJSON_run [OF assms(1-3)])
  have p1: "puppet (heap w1 r) = Some p"
    using assms(2) by (simp add: w1_def)
  have d1: "(case Text (JSON_stringify w pl) of Text s \<Rightarrow> JSON_parse w1 s | Object q \<Rightarrow> Inr q)
              = Inr pl"
    using assms(5) by (simp add: w1_def)
  have s2: "fromJSON (h_class this) (Text (JSON_stringify w pl)) w1 = (Inr that, w2)"
    using fromJSON_run [OF p1 d1 assms(4)]
    by (simp add: assms(1) that_def w2_def p'_def w1_def)
  have c: "h_class that = WechatifiedRoomInvitation r"
    by (simp add: that_def)
  have i: "h_id that = p_id pl"
    by (simp add: that_def)
  have reads: "fst (topic that w3) = Inr (or_default truthy_string (p_topic pl) [])
             \<and> fst (memberCount that w3) = Inr (or_default truthy_number (p_memberCount pl) 0)
             \<and> fst (date that w3) = Inr (timestampToDate w (p_timestamp pl))
             \<and> fst (inviter that w3) = Inr (Contact r (p_inviterId pl))
             \<and> fst (memberList that w3)
                 = (case first_rejection (contactReady (heap w r))
                           (or_default truthy_array (p_memberIdList pl) []) of
                      Some e \<Rightarrow> Inl e
                    | None \<Rightarrow>
                        Inr (map (Contact r) (or_default truthy_array (p_memberIdList pl) [])))
             \<and> fst (toJSON that w3) = Inr (JSON_stringify w pl)"
    if w3: "w3 = w2\<lparr>Date_now := now, trace := tr\<rparr>" for w3 now tr
  proof -
    have p3: "puppet (heap w3 r) = Some p'"
      by (simp add: w3 w2_def)
    have f3: "payloadOf p' (h_id that) = Inr pl"
      by (simp add: p'_def i)
    have r3: "contactReady (heap w3 r) = contactReady (heap w r)"
      by (simp add: w3 w2_def w1_def)
    have t3: "timestampToDate w3 = timestampToDate w"
      by (simp add: w3 w2_def w1_def)
    have j3: "JSON_stringify w3 = JSON_stringify w"
      by (simp add: w3 w2_def w1_def)
    have "fst (topic that w3) = Inr (or_default truthy_string (p_topic pl) [])"
      by (simp add: topic_run [OF c p3 f3])
    moreover have "fst (memberCount that w3) = Inr (or_default truthy_number (p_memberCount pl) 0)"
      by (simp add: memberCount_run [OF c p3 f3])
    moreover have "fst (date that w3) = Inr (timestampToDate w (p_timestamp pl))"
      by (simp add: date_run [OF c p3 f3] t3)
    moreover have "fst (inviter that w3) = Inr (Contact r (p_inviterId pl))"
      by (simp add: inviter_run [OF c p3 f3])
    moreover have "fst (memberList that w3)
                 = (case first_rejection (contactReady (heap w r))
                           (or_default truthy_array (p_memberIdList pl) []) of
                      Some e \<Rightarrow> Inl e
                    | None \<Rightarrow>
                        Inr (map (Contact r) (or_default truthy_array (p_memberIdList pl) [])))"
      by (simp add: memberList_run [OF c p3 f3 refl] r3)
    moreover have "fst (toJSON that w3) = Inr (JSON_stringify w pl)"
      by (simp add: toJSON_run [OF c p3 f3] j3)
    ultimately show ?thesis by blast
  qed
  from s1 s2 i reads show ?thesis
    by blast
qed

theorem toJSON_fromJSON_round_trip_witness:
  "h_class (mock_invitation ''i1'') = WechatifiedRoomInvitation 0
   \<and> puppet (heap mock_world 0) = Some mock_puppet
   \<and> payloadOf mock_puppet (h_id (mock_invitation ''i1'')) = Inr scenario_payload
   \<and> storeFailure mock_puppet (p_id scenario_payload) scenario_payload = None
   \<and> JSON_parse mock_world (JSON_stringify mock_world scenario_payload) = Inr scenario_payload
   \<and> (\<exists>w1 that w2.
           toJSON (mock_invitation ''i1'') mock_world = (Inr scenario_text, w1)
         \<and> fromJSON (h_class (mock_invitation ''i1'')) (Text scenario_text) w1 = (Inr that, w2)
         \<and> h_id that = ''i1''
         \<and> (\<forall>tr now.
               fst (topic that (w2\<lparr>Date_now := now, trace := tr\<rparr>)) = Inr ''T''
             \<and> fst (memberCount that (w2\<lparr>Date_now := now, trace := tr\<rparr>)) = Inr 3
             \<and> fst (date that (w2\<lparr>Date_now := now, trace := tr\<rparr>)) = Inr (Date 1234567890000)
             \<and> fst (inviter that (w2\<lparr>Date_now := now, trace := tr\<rparr>)) = Inr (Contact 0 ''c1'')
             \<and> fst (memberList that (w2\<lparr>Date_now := now, trace := tr\<rparr>))
                 = Inr [Contact 0 ''c1'', Contact 0 ''c2'', Contact 0 ''c3'']
             \<and> fst (toJSON that (w2\<lparr>Date_now := now, trace := tr\<rparr>)) = Inr scenario_text))"
proof -
  have h1: "h_class (mock_invitation ''i1'') = WechatifiedRoomInvitation 0"
    by (rule mock_class)
  have h2: "puppet (heap mock_world 0) = Some mock_puppet"
    by (simp add: mock_heap_0)
  have h3: "payloadOf mock_puppet (h_id (mock_invitation ''i1'')) = Inr scenario_payload"
    by (simp add: mock_id mock_puppet_def)
  have i: "p_id scenario_payload = ''i1''"
    by (simp add: scenario_payload_def)
  have h4: "storeFailure mock_puppet (p_id scenario_payload) scenario_payload = None"
    by (simp add: i mock_puppet_def)
  have js: "JSON_stringify mock_world scenario_payload = scenario_text"
    by (simp add: mock_world_def)
  have h5: "JSON_parse mock_world (JSON_stringify mock_world scenario_payload)
              = Inr scenario_payload"
    by (simp add: js) (simp add: mock_world_def)
  have f: "p_topic scenario_payload = Some ''T''"
    "p_memberCount scenario_payload = Some 3"
    "p_timestamp scenario_payload = Some 1234567890"
    "p_inviterId scenario_payload = ''c1''"
    "p_memberIdList scenario_payload = Some [''c1'', ''c2'', ''c3'']"
    by (simp_all add: scenario_payload_def)
  have t: "timestampToDate mock_world (Some 1234567890) = Date 1234567890000"
    by (simp add: mock_world_def)
  from toJSON_fromJSON_round_trip [OF h1 h2 h3 h4 h5]
  have "\<exists>w1 that w2.
           toJSON (mock_invitation ''i1'') mock_world = (Inr scenario_text, w1)
         \<and> fromJSON (h_class (mock_invitation ''i1'')) (Text scenario_text) w1 = (Inr that, w2)
         \<and> h_id that = ''i1''
         \<and> (\<forall>tr now.
               fst (topic that (w2\<lparr>Date_now := now, trace := tr\<rparr>)) = Inr ''T''
             \<and> fst (memberCount that (w2\<lparr>Date_now := now, trace := tr\<rparr>)) = Inr 3
             \<and> fst (date that (w2\<lparr>Date_now := now, trace := tr\<rparr>)) = Inr (Date 1234567890000)
             \<and> fst (inviter that (w2\<lparr>Date_now := now, trace := tr\<rparr>)) = Inr (Contact 0 ''c1'')
             \<and> fst (memberList that (w2\<lparr>Date_now := now, trace := tr\<rparr>))
                 = Inr [Contact 0 ''c1'', Contact 0 ''c2'', Contact 0 ''c3'']
             \<and> fst (toJSON that (w2\<lparr>Date_now := now, trace := tr\<rparr>)) = Inr scenario_text)"
    by (simp add: js i f t mock_heap_0 truthy_string_def truthy_number_def truthy_array_def)
  with h1 h2 h3 h4 h5 show ?thesis
    by blast
qed

section \<open>Failures\<close>

text \<open>
  C8. Constructing on the base class, or on a class specialized to a context without
  a puppet, raises: \<open>constructor\<close> and \<open>load\<close>, which are synchronous, end in the
  error and return no handle. For the other operations of a handle bound to a context
  with puppet \<open>p\<close>, a call on the puppet that rejects makes the operation reject
  with the same error: the fetch in \<open>toStringAsync\<close>, \<open>inviter\<close>, \<open>topic\<close>,
  \<open>memberCount\<close>, \<open>memberList\<close>, \<open>date\<close>, \<open>age\<close>, \<open>toJSON\<close> and \<open>accept\<close>, the
  acceptance in \<open>accept\<close>, and the write-through in \<open>fromJSON\<close>.
\<close>

theorem failures_are_raised:
  assumes "h_class this = WechatifiedRoomInvitation r" and "puppet (heap w r) = Some p"
  shows "constructor RoomInvitation i w =
           (Inl (Error ''RoomInvitation class can not be instantiated directly! See: https://github.com/wechaty/wechaty/issues/1217''),
            w\<lparr>trace := trace w @ [Log Verbose ''RoomInvitation'' ''constructor(id=%s)'' [i]]\<rparr>)
       \<and> load RoomInvitation i w = constructor RoomInvitation i w
       \<and> (puppet (heap w r') = None \<longrightarrow>
            constructor (wechatifyRoomInvitation r') i w =
              (Inl (Error ''RoomInvitation class can not be instantiated without a puppet!''),
               w\<lparr>trace := trace w @ [Log Verbose ''RoomInvitation'' ''constructor(id=%s)'' [i]]\<rparr>)
          \<and> load (wechatifyRoomInvitation r') i w = constructor (wechatifyRoomInvitation r') i w)
       \<and> (payloadOf p (h_id this) = Inl e \<longrightarrow>
            fst (toStringAsync this w) = Inl e
          \<and> fst (inviter this w) = Inl e
          \<and> fst (topic this w) = Inl e
          \<and> fst (memberCount this w) = Inl e
          \<and> fst (memberList this w) = Inl e
          \<and> fst (date this w) = Inl e
          \<and> fst (age this w) = Inl e
          \<and> fst (toJSON this w) = Inl e)
       \<and> (payloadOf p (h_id this) = Inl e \<and> acceptFailure p (h_id this) = None \<longrightarrow>
            fst (accept this w) = Inl e)
       \<and> (acceptFailure p j = Some e' \<longrightarrow> fst (accept (this\<lparr>h_id := j\<rparr>) w) = Inl e')
       \<and> (storeFailure p (p_id pl) pl = Some e'' \<longrightarrow>
            fst (fromJSON (h_class this) (Object pl) w) = Inl e'')"
proof -
  note b = assms
  have c1: "constructor RoomInvitation i w =
           (Inl (Error ''RoomInvitation class can not be instantiated directly! See: https://github.com/wechaty/wechaty/issues/1217''),
            w\<lparr>trace := trace w @ [Log Verbose ''RoomInvitation'' ''constructor(id=%s)'' [i]]\<rparr>)"
    by (rule constructor_base)
  have c2: "load RoomInvitation i w = constructor RoomInvitation i w"
    by (simp add: load_def)
  have c3: "puppet (heap w r') = None \<longrightarrow>
            constructor (wechatifyRoomInvitation r') i w =
              (Inl (Error ''RoomInvitation class can not be instantiated without a puppet!''),
               w\<lparr>trace := trace w @ [Log Verbose ''RoomInvitation'' ''constructor(id=%s)'' [i]]\<rparr>)
          \<and> load (wechatifyRoomInvitation r') i w = constructor (wechatifyRoomInvitation r') i w"
    by (simp add: load_def wechatifyRoomInvitation_def constructor_no_puppet)
  have c4: "payloadOf p (h_id this) = Inl e \<longrightarrow>
            fst (toStringAsync this w) = Inl e
          \<and> fst (inviter this w) = Inl e
          \<and> fst (topic this w) = Inl e
          \<and> fst (memberCount this w) = Inl e
          \<and> fst (memberList this w) = Inl e
          \<and> fst (date this w) = Inl e
          \<and> fst (age this w) = Inl e
          \<and> fst (toJSON this w) = Inl e"
    using reads_reject [OF b] age_rejects [OF b] by blast
  have c5: "payloadOf p (h_id this) = Inl e \<and> acceptFailure p (h_id this) = None \<longrightarrow>
            fst (accept this w) = Inl e"
    using accept_rejects_unfetched [OF b] by blast
  have "h_class (this\<lparr>h_id := j\<rparr>) = WechatifiedRoomInvitation r"
    using b(1) by simp
  from accept_rejects_refused [OF this b(2), of e']
  have c6: "acceptFailure p j = Some e' \<longrightarrow> fst (accept (this\<lparr>h_id := j\<rparr>) w) = Inl e'"
    by simp
  have c7: "storeFailure p (p_id pl) pl = Some e'' \<longrightarrow>
            fst (fromJSON (h_class this) (Object pl) w) = Inl e''"
    using fromJSON_store_fails [OF b(2), of "Object pl" pl e''] b(1) by simp
  from c1 c2 c3 c4 c5 c6 c7 show ?thesis
    by blast
qed

theorem failures_are_raised_witness:
  "h_class (mock_invitation ''i9'') = WechatifiedRoomInvitation 0
   \<and> puppet (heap mock_world 0) = Some mock_puppet
   \<and> puppet (heap mock_world 1) = None
   \<and> payloadOf mock_puppet (h_id (mock_invitation ''i9'')) = Inl (Error ''no such invitation'')
   \<and> acceptFailure mock_puppet (h_id (mock_invitation ''i9'')) = None
   \<and> acceptFailure mock_puppet ''i4'' = Some (Error ''invitation expired'')
   \<and> storeFailure mock_puppet (p_id (scenario_payload\<lparr>p_id := ''i3''\<rparr>))
        (scenario_payload\<lparr>p_id := ''i3''\<rparr>) = Some (Error ''store is read-only'')
   \<and> fst (load RoomInvitation ''i1'' mock_world) =
        Inl (Error ''RoomInvitation class can not be instantiated directly! See: https://github.com/wechaty/wechaty/issues/1217'')
   \<and> fst (load (wechatifyRoomInvitation 1) ''i1'' mock_world) =
        Inl (Error ''RoomInvitation class can not be instantiated without a puppet!'')
   \<and> fst (toStringAsync (mock_invitation ''i9'') mock_world) = Inl (Error ''no such invitation'')
   \<and> fst (inviter (mock_invitation ''i9'') mock_world) = Inl (Error ''no such invitation'')
   \<and> fst (topic (mock_invitation ''i9'') mock_world) = Inl (Error ''no such invitation'')
   \<and> fst (memberCount (mock_invitation ''i9'') mock_world) = Inl (Error ''no such invitation'')
   \<and> fst (memberList (mock_invitation ''i9'') mock_world) = Inl (Error ''no such invitation'')
   \<and> fst (date (mock_invitation ''i9'') mock_world) = Inl (Error ''no such invitation'')
   \<and> fst (age (mock_invitation ''i9'') mock_world) = Inl (Error ''no such invitation'')
   \<and> fst (toJSON (mock_invitation ''i9'') mock_world) = Inl (Error ''no such invitation'')
   \<and> fst (accept (mock_invitation ''i9'') mock_world) = Inl (Error ''no such invitation'')
   \<and> fst (accept (mock_invitation ''i4'') mock_world) = Inl (Error ''invitation expired'')
   \<and> fst (fromJSON (wechatifyRoomInvitation 0) (Object (scenario_payload\<lparr>p_id := ''i3''\<rparr>))
           mock_world) = Inl (Error ''store is read-only'')"
proof -
  have h1: "h_class (mock_invitation ''i9'') = WechatifiedRoomInvitation 0"
    by (rule mock_class)
  have h2: "puppet (heap mock_world 0) = Some mock_puppet"
    by (simp add: mock_heap_0)
  have h3: "puppet (heap mock_world 1) = None"
    by (simp add: mock_heap_1)
  have h4: "payloadOf mock_puppet (h_id (mock_invitation ''i9'')) = Inl (Error ''no such invitation'')"
    by (simp add: mock_id mock_puppet_def)
  have h5: "acceptFailure mock_puppet (h_id (mock_invitation ''i9'')) = None"
    by (simp add: mock_id mock_puppet_def)
  have h6: "acceptFailure mock_puppet ''i4'' = Some (Error ''invitation expired'')"
    by (simp add: mock_puppet_def)
  have h7: "storeFailure mock_puppet (p_id (scenario_payload\<lparr>p_id := ''i3''\<rparr>))
        (scenario_payload\<lparr>p_id := ''i3''\<rparr>) = Some (Error ''store is read-only'')"
    by (simp add: mock_puppet_def)
  have m: "mock_invitation ''i9''\<lparr>h_id := ''i4''\<rparr> = mock_invitation ''i4''"
    by (simp add: mock_invitation_def)
  have k: "wechatifyRoomInvitation 0 = WechatifiedRoomInvitation 0"
    by (simp add: wechatifyRoomInvitation_def)
  from failures_are_raised [OF h1 h2, where i = "''i1''" and r' = 1
      and e = "Error ''no such invitation''" and j = "''i4''"
      and e' = "Error ''invitation expired''"
      and pl = "scenario_payload\<lparr>p_id := ''i3''\<rparr>" and e'' = "Error ''store is read-only''"]
    h1 h2 h3 h4 h5 h6 h7
  show ?thesis
    by (simp add: m k)
qed

section \<open>The bound context\<close>

text \<open>
  C9. Take the class that \<open>wechatifyRoomInvitation\<close> makes for a context \<open>r\<close>, any
  handles \<open>hs0\<close> of that class, and any sequence of operations (\<open>load\<close>,
  \<open>fromJSON\<close>, \<open>accept\<close> and the reads, on the handles held so far) run from any
  world. The static accessor returns \<open>r\<close>. Every handle held before is still held
  afterwards, and every handle held afterwards, the ones \<open>load\<close> and \<open>fromJSON\<close>
  have handed out among them, is of that class and its accessor returns \<open>r\<close>. Each
  operation reads the accessor whenever it reaches for the puppet or for a contact,
  and each time it found \<open>r\<close>: every puppet call and contact call the sequence has
  added to the trace is addressed to \<open>r\<close>, and every other context is as it was.
\<close>

theorem bound_context_is_fixed:
  assumes "\<forall>h \<in> set hs0. h_class h = wechatifyRoomInvitation r"
    and "run (wechatifyRoomInvitation r) ops (w, hs0) = (w', hs)"
  shows "wechaty_static (wechatifyRoomInvitation r) = Inr r
       \<and> (\<exists>new. hs = hs0 @ new)
       \<and> (\<forall>h \<in> set hs. h_class h = wechatifyRoomInvitation r \<and> wechaty h = Inr r)
       \<and> (\<exists>evs. trace w' = trace w @ evs
                \<and> (\<forall>ev \<in> set evs. event_context ev = None \<or> event_context ev = Some r))
       \<and> (\<forall>r'. r' \<noteq> r \<longrightarrow> heap w' r' = heap w r')"
proof -
  have k: "wechatifyRoomInvitation r = WechatifiedRoomInvitation r"
    by (simp add: wechatifyRoomInvitation_def)
  have "\<forall>h \<in> set (snd (w, hs0)). h_class h = WechatifiedRoomInvitation r"
    using assms(1) by (simp add: k)
  from run_invariant [OF this, of ops] assms(2)
  have h: "\<forall>h \<in> set hs. h_class h = WechatifiedRoomInvitation r"
    and a: "acts_only_on r w w'"
    and n: "\<exists>new. hs = hs0 @ new"
    by (simp_all add: k)
  from h have "\<forall>h \<in> set hs. h_class h = wechatifyRoomInvitation r \<and> wechaty h = Inr r"
    by (simp add: k wechaty_bound)
  with a n show ?thesis
    by (simp add: k acts_only_on_def)
qed

theorem bound_context_is_fixed_witness:
  "run (wechatifyRoomInvitation 0)
     [Do_load ''i1'', Do_accept 0, Do_fromJSON (Object scenario_payload), Do_topic 1]
     (mock_world, []) =
     (fst (run (wechatifyRoomInvitation 0)
             [Do_load ''i1'', Do_accept 0, Do_fromJSON (Object scenario_payload), Do_topic 1]
             (mock_world, [])),
      [mock_invitation ''i1'', mock_invitation ''i1''])
   \<and> wechaty_static (wechatifyRoomInvitation 0) = Inr 0
   \<and> h_class (mock_invitation ''i1'') = wechatifyRoomInvitation 0
   \<and> wechaty (mock_invitation ''i1'') = Inr 0
   \<and> heap (fst (run (wechatifyRoomInvitation 0)
             [Do_load ''i1'', Do_accept 0, Do_fromJSON (Object scenario_payload), Do_topic 1]
             (mock_world, []))) 1 = heap mock_world 1"
proof -
  let ?C = "wechatifyRoomInvitation 0"
  let ?ops = "[Do_load ''i1'', Do_accept 0, Do_fromJSON (Object scenario_payload), Do_topic 1]"
  let ?h = "mock_invitation ''i1''"
  have k: "?C = WechatifiedRoomInvitation 0"
    by (simp add: wechatifyRoomInvitation_def)
  have hc: "h_class ?h = WechatifiedRoomInvitation 0"
    by (rule mock_class)
  have hr: "?h = \<lparr>h_class = WechatifiedRoomInvitation 0, h_id = ''i1''\<rparr>"
    by (simp add: mock_invitation_def k)
  have i: "p_id scenario_payload = ''i1''"
    by (simp add: scenario_payload_def)
  have p0: "puppet (heap mock_world 0) = Some mock_puppet"
    by (simp add: mock_heap_0)
  obtain w1 where s1: "load ?C ''i1'' mock_world = (Inr ?h, w1)"
    and p1: "puppet (heap w1 0) = Some mock_puppet"
    using constructor_run [of mock_world 0 "''i1''"] p0
    by (simp add: load_def k hr)
  have af: "acceptFailure mock_puppet (h_id ?h) = None"
    by (simp add: mock_id mock_puppet_def)
  have pf: "payloadOf mock_puppet (h_id ?h) = Inr scenario_payload"
    by (simp add: mock_id mock_puppet_def)
  define w2 where "w2 = snd (accept ?h w1)"
  have s2: "snd (accept ?h w1) = w2"
    by (simp add: w2_def)
  have "heap w2 = heap w1"
    unfolding w2_def by (simp add: accept_run [OF hc p1 af pf])
  with p1 have p2: "puppet (heap w2 0) = Some mock_puppet"
    by simp
  have st: "storeFailure mock_puppet (p_id scenario_payload) scenario_payload = None"
    by (simp add: i mock_puppet_def)
  obtain w3 where s3: "fromJSON ?C (Object scenario_payload) w2 = (Inr ?h, w3)"
    using fromJSON_run [OF p2, of "Object scenario_payload" scenario_payload] st
    by (simp add: k hr i)
  have r: "run ?C ?ops (mock_world, []) = (snd (topic ?h w3), [?h, ?h])"
    using s1 s2 s3
    by (simp add: run_def obtain_handle_def on_handle_def)
  then have c: "run ?C ?ops (mock_world, []) = (fst (run ?C ?ops (mock_world, [])), [?h, ?h])"
    by simp
  have e: "\<forall>h \<in> set ([] :: roomInvitation list). h_class h = ?C"
    by simp
  from bound_context_is_fixed [OF e c] c
  show ?thesis
    by simp
qed

end
